theory Spec2Isabelle
  imports Main "HOL-Library.AList" "HOL-Library.Word"
begin

section \<open>JavaScript values\<close>

text \<open>
  The handlers work on loosely typed values (\<open>Record<string, unknown>\<close>, the parsed
  JSON of a response). A value is one of the JSON shapes plus \<open>undefined\<close>, the
  result of reading a property that is not there. A number is represented by an
  integer: the program only tests numbers for zero and prints them. A character of
  a \<open>string\<close> stands for one code unit of the JavaScript string, so \<open>length\<close>
  is \<open>.length\<close> and \<open>take\<close> is \<open>.substring(0, n)\<close>. An object is the list of
  its own properties in insertion order.
\<close>

datatype js =
    JUndefined
  | JNull
  | JBool bool
  | JNum int
  | JStr string
  | JArr "js list"
  | JObj "(string \<times> js) list"

type_synonym bag = "(string \<times> js) list"

text \<open>ToBoolean: what \<open>!x\<close>, \<open>x || d\<close> and \<open>if (x)\<close> test.\<close>

fun truthy :: "js \<Rightarrow> bool" where
  "truthy JUndefined = False"
| "truthy JNull = False"
| "truthy (JBool b) = b"
| "truthy (JNum n) = (n \<noteq> 0)"
| "truthy (JStr s) = (s \<noteq> [])"
| "truthy (JArr xs) = True"
| "truthy (JObj fs) = True"

text \<open>\<open>a || d\<close> and \<open>a ?? d\<close>.\<close>

definition js_or :: "js \<Rightarrow> js \<Rightarrow> js" where
  "js_or a d = (if truthy a then a else d)"

definition js_nullish :: "js \<Rightarrow> js \<Rightarrow> js" where
  "js_nullish a d = (if a = JUndefined \<or> a = JNull then d else a)"

text \<open>\<open>typeof x\<close>.\<close>

fun typeof :: "js \<Rightarrow> string" where
  "typeof JUndefined = ''undefined''"
| "typeof JNull = ''object''"
| "typeof (JBool b) = ''boolean''"
| "typeof (JNum n) = ''number''"
| "typeof (JStr s) = ''string''"
| "typeof (JArr xs) = ''object''"
| "typeof (JObj fs) = ''object''"

text \<open>\<open>args.k\<close> on an object: the property, or \<open>undefined\<close> when it is absent.\<close>

definition field :: "bag \<Rightarrow> string \<Rightarrow> js" where
  "field fs k = (case map_of fs k of None \<Rightarrow> JUndefined | Some v \<Rightarrow> v)"

text \<open>Decimal digits of a number, as \<open>String(n)\<close> prints an integer.\<close>

fun digits :: "nat \<Rightarrow> string" where
  "digits n =
     (if n < 10 then [''0123456789'' ! n]
      else digits (n div 10) @ [''0123456789'' ! (n mod 10)])"

definition show_int :: "int \<Rightarrow> string" where
  "show_int i = (if i < 0 then CHR ''-'' # digits (nat (- i)) else digits (nat i))"

fun join :: "string \<Rightarrow> string list \<Rightarrow> string" where
  "join sep [] = []"
| "join sep [x] = x"
| "join sep (x # y # ys) = x @ sep @ join sep (y # ys)"

text \<open>
  The string coercion of the template literal in \<open>handleEmbed\<close>, which prints the
  chunk count and the model name of a response (declared a number and a string).
  An array prints its elements joined by commas, \<open>null\<close> and \<open>undefined\<close> elements
  as the empty string; a plain object prints as \<open>[object Object]\<close>. This is the
  engine's printing for strings, for integers of magnitude below \<open>10^21\<close> and for
  objects without a \<open>toString\<close> property of their own.
\<close>

fun js_to_string :: "js \<Rightarrow> string" where
  "js_to_string JUndefined = ''undefined''"
| "js_to_string JNull = ''null''"
| "js_to_string (JBool b) = (if b then ''true'' else ''false'')"
| "js_to_string (JNum n) = show_int n"
| "js_to_string (JStr s) = s"
| "js_to_string (JArr xs) =
     join '','' (map (\<lambda>x. if x = JUndefined \<or> x = JNull then [] else js_to_string x) xs)"
| "js_to_string (JObj fs) = ''[object Object]''"

section \<open>Thrown values\<close>

text \<open>
  What a \<open>throw\<close> or a rejected promise carries: an \<open>Error\<close> object with its
  message, or a value that is not an \<open>Error\<close>, given by its \<open>String\<close> coercion.
  The messages of the engine's own \<open>TypeError\<close>s are those of Node.
\<close>

datatype thrown = Error string | NonError string

definition cannot_read :: "string \<Rightarrow> string \<Rightarrow> thrown" where
  "cannot_read what k =
     Error (''Cannot read properties of '' @ what @ '' (reading '' @ [CHR 0x27] @ k @ [CHR 0x27] @ '')'')"

text \<open>
  \<open>v.k\<close> on any value, for the property names this program reads (none of them is a
  built-in member of a string, a number, a boolean or an array): reading from
  \<open>undefined\<close> or \<open>null\<close> throws.
\<close>

definition read :: "js \<Rightarrow> string \<Rightarrow> thrown + js" where
  "read v k =
     (case v of
        JUndefined \<Rightarrow> Inl (cannot_read ''undefined'' k)
      | JNull \<Rightarrow> Inl (cannot_read ''null'' k)
      | JObj fs \<Rightarrow> Inr (field fs k)
      | _ \<Rightarrow> Inr JUndefined)"

text \<open>\<open>v?.k\<close>: \<open>undefined\<close> when \<open>v\<close> is \<open>undefined\<close> or \<open>null\<close>.\<close>

definition read_opt :: "js \<Rightarrow> string \<Rightarrow> js" where
  "read_opt v k = (case v of JObj fs \<Rightarrow> field fs k | _ \<Rightarrow> JUndefined)"

section \<open>The Remote Call Client\<close>

text \<open>
  \<open>createApiClient(baseUrl, apiKey).callApi(endpoint, method, body)\<close>. The network
  is a function from the request that \<open>fetch\<close> is given to what comes back: either
  \<open>fetch\<close> rejects, or there is a response with a status and the outcome of
  \<open>response.json()\<close>. The status of a \<open>Response\<close> is an unsigned short, which a
  template literal prints in plain decimal. \<open>JSON.stringify\<close> is a parameter, and so
  is the string coercion of a value that is not a string (\<open>ToString\<close>: the engine's
  printing of a number, of an array, of an object, which throws a \<open>TypeError\<close> on
  an object that cannot be converted).
\<close>

record request_init =
  url :: string
  http_method :: string
  headers :: "(string \<times> string) list"
  req_body :: "string option"

record http_response =
  status :: "16 word"
  json :: "thrown + js"

type_synonym network = "request_init \<Rightarrow> thrown + http_response"

definition ok :: "http_response \<Rightarrow> bool" where
  "ok r = (200 \<le> unat (status r) \<and> unat (status r) \<le> 299)"

definition build_request ::
  "(js \<Rightarrow> string) \<Rightarrow> string \<Rightarrow> string \<Rightarrow> string \<Rightarrow> string \<Rightarrow> js \<Rightarrow> request_init" where
  "build_request stringify baseUrl apiKey endpoint method body =
     \<lparr> url = baseUrl @ endpoint,
       http_method = method,
       headers = [(''X-S2T-API-Key'', apiKey), (''Content-Type'', ''application/json'')],
       req_body = (if truthy body then Some (stringify body) else None) \<rparr>"

text \<open>The parameter \<open>method: string = "GET"\<close>: the default stands in for an omitted method.\<close>

definition method_or_default :: "string option \<Rightarrow> string" where
  "method_or_default m = (case m of None \<Rightarrow> ''GET'' | Some x \<Rightarrow> x)"

type_synonym ApiClient = "string \<Rightarrow> string option \<Rightarrow> js \<Rightarrow> thrown + js"

text \<open>
  \<open>throw new Error(message)\<close>: the message of the error is the string itself, or
  the string coercion of a value that is not a string; when that coercion throws,
  its \<open>TypeError\<close> is what is thrown.
\<close>

definition new_Error :: "(js \<Rightarrow> thrown + string) \<Rightarrow> js \<Rightarrow> thrown" where
  "new_Error ToString message =
     (case message of
        JStr m \<Rightarrow> Error m
      | v \<Rightarrow> (case ToString v of Inl e \<Rightarrow> e | Inr m \<Rightarrow> Error m))"

definition callApi ::
  "(js \<Rightarrow> string) \<Rightarrow> (js \<Rightarrow> thrown + string) \<Rightarrow> network \<Rightarrow> string \<Rightarrow> string
     \<Rightarrow> ApiClient" where
  "callApi stringify ToString fetch baseUrl apiKey endpoint method body =
     (case fetch (build_request stringify baseUrl apiKey endpoint (method_or_default method) body) of
        Inl e \<Rightarrow> Inl e
      | Inr response \<Rightarrow>
          (case json response of
             Inl e \<Rightarrow> Inl e
           | Inr data \<Rightarrow>
               if \<not> ok response then
                 (case read data ''error'' of
                    Inl e \<Rightarrow> Inl e
                  | Inr err \<Rightarrow>
                      Inl (new_Error ToString
                        (js_or (read_opt err ''message'')
                               (JStr (''API error: '' @ digits (unat (status response)))))))
               else Inr data))"

section \<open>Handlers\<close>

text \<open>
  A handler is an \<open>async\<close> function: it either returns its text or rejects with what
  was thrown. The model also returns the calls it made to the client, in order, so
  that "no remote call" is a statement about the result. The client a handler is
  given is any function from a call to its outcome (the real client above, or a
  mock).
\<close>

record api_call =
  call_endpoint :: string
  call_method :: "string option"
  call_body :: js

type_synonym 'a effect = "api_call list \<times> (thrown + 'a)"

definition throw :: "thrown \<Rightarrow> 'a effect" where
  "throw e = ([], Inl e)"

text \<open>
  \<open>const result = await apiClient.callApi(endpoint, method, body); ... \<close>: the call is
  made, and the rest of the handler (\<open>k\<close>) runs on its result unless it rejected.
  The rest of every handler is pure.
\<close>

definition call_then ::
  "ApiClient \<Rightarrow> string \<Rightarrow> string option \<Rightarrow> js \<Rightarrow> (js \<Rightarrow> thrown + 'a) \<Rightarrow> 'a effect" where
  "call_then apiClient ep m b k =
     ([\<lparr> call_endpoint = ep, call_method = m, call_body = b \<rparr>],
      (case apiClient ep m b of Inl e \<Rightarrow> Inl e | Inr result \<Rightarrow> k result))"

text \<open>
  The dispatcher passes \<open>request.params.arguments\<close>, which the protocol lets a caller
  omit, cast to \<open>Record<string, unknown>\<close>. A handler given \<open>undefined\<close> throws a
  \<open>TypeError\<close> at the first property it reads from it.
\<close>

definition on_args :: "string \<Rightarrow> bag option \<Rightarrow> (bag \<Rightarrow> 'a effect) \<Rightarrow> 'a effect" where
  "on_args first args k =
     (case args of None \<Rightarrow> throw (cannot_read ''undefined'' first) | Some a \<Rightarrow> k a)"

definition required_string :: "string \<Rightarrow> string" where
  "required_string k =
     ''Required parameter '' @ [CHR 0x27] @ k @ [CHR 0x27] @ '' must be a non-empty string''"

text \<open>
  What the handlers use and this development does not look into: \<open>JSON.stringify\<close>,
  the rendering of a response as text by each handler other than \<open>handleEmbed\<close>
  (which can throw on a response of the wrong shape), and the handlers of
  \<open>handlers.ts\<close> and \<open>local-handlers.ts\<close> that the dispatcher binds but whose source
  is not at hand (the governance handlers take the client, the interview handlers
  do not).
\<close>

record externals =
  json_stringify :: "js \<Rightarrow> string"
  render :: "string \<Rightarrow> js \<Rightarrow> thrown + string"
  governance :: "string \<Rightarrow> bag option \<Rightarrow> ApiClient \<Rightarrow> string effect"
  interview :: "string \<Rightarrow> bag option \<Rightarrow> thrown + string"

subsection \<open>handleEmbed\<close>

definition embed_payload :: "bag \<Rightarrow> js" where
  "embed_payload args =
     JObj [(''text'', field args ''text''),
           (''model'', js_or (field args ''model'') (JStr ''amazon.titan-embed-text-v2:0'')),
           (''chunk_size'', js_or (field args ''chunk_size'') (JNum 512)),
           (''chunk_overlap'', js_or (field args ''chunk_overlap'') (JNum 50))]"

text \<open>
  \<open>c.text.substring(0, 100) + (c.text.length > 100 ? "..." : "")\<close> for a string
  \<open>c.text\<close>.
\<close>

definition text_preview :: "string \<Rightarrow> string" where
  "text_preview t = take 100 t @ (if length t > 100 then ''...'' else [])"

text \<open>The callback of \<open>response.chunks.map((c, i) => ...)\<close>.\<close>

definition embed_chunk :: "nat \<Rightarrow> js \<Rightarrow> thrown + js" where
  "embed_chunk i c =
     (case read c ''text'' of
        Inl e \<Rightarrow> Inl e
      | Inr t \<Rightarrow>
          (case t of
             JStr s \<Rightarrow>
               (case read c ''metadata'' of
                  Inl e \<Rightarrow> Inl e
                | Inr m \<Rightarrow>
                    (case read m ''word_count'' of
                       Inl e \<Rightarrow> Inl e
                     | Inr wc \<Rightarrow>
                         Inr (JObj [(''index'', JNum (int i)),
                                    (''text_preview'', JStr (text_preview s)),
                                    (''word_count'', wc),
                                    (''has_embedding'', JBool True)])))
           | JUndefined \<Rightarrow> Inl (cannot_read ''undefined'' ''substring'')
           | JNull \<Rightarrow> Inl (cannot_read ''null'' ''substring'')
           | _ \<Rightarrow> Inl (Error ''c.text.substring is not a function'')))"

fun map_chunks :: "nat \<Rightarrow> js list \<Rightarrow> thrown + js list" where
  "map_chunks i [] = Inr []"
| "map_chunks i (c # cs) =
     (case embed_chunk i c of
        Inl e \<Rightarrow> Inl e
      | Inr x \<Rightarrow> (case map_chunks (Suc i) cs of Inl e \<Rightarrow> Inl e | Inr xs \<Rightarrow> Inr (x # xs)))"

text \<open>The object that \<open>handleEmbed\<close> hands to \<open>JSON.stringify\<close>, property by property.\<close>

definition embed_output :: "js \<Rightarrow> thrown + js" where
  "embed_output response =
     (case read response ''summary'' of
        Inl e \<Rightarrow> Inl e
      | Inr summary \<Rightarrow>
     (case read summary ''total_chunks'' of
        Inl e \<Rightarrow> Inl e
      | Inr total_chunks \<Rightarrow>
     (case read summary ''model'' of
        Inl e \<Rightarrow> Inl e
      | Inr model \<Rightarrow>
     (case read summary ''dimensions'' of
        Inl e \<Rightarrow> Inl e
      | Inr dims \<Rightarrow>
     (case read response ''chunks'' of
        Inl e \<Rightarrow> Inl e
      | Inr chunks \<Rightarrow>
     (case chunks of
        JArr cs \<Rightarrow>
          (case map_chunks 0 cs of
             Inl e \<Rightarrow> Inl e
           | Inr out \<Rightarrow>
               (case read response ''usage'' of
                  Inl e \<Rightarrow> Inl e
                | Inr usage \<Rightarrow>
                    Inr (JObj [(''summary'', JStr (''Generated '' @ js_to_string total_chunks
                                                    @ '' embedding(s) using '' @ js_to_string model)),
                               (''dimensions'', dims),
                               (''chunks'', JArr out),
                               (''usage'', usage),
                               (''note'', JStr ''Full embeddings available in API response. Use for vector database indexing.'')])))
      | JUndefined \<Rightarrow> Inl (cannot_read ''undefined'' ''map'')
      | JNull \<Rightarrow> Inl (cannot_read ''null'' ''map'')
      | _ \<Rightarrow> Inl (Error ''response.chunks.map is not a function'')))))))"

definition handleEmbed :: "externals \<Rightarrow> bag option \<Rightarrow> ApiClient \<Rightarrow> string effect" where
  "handleEmbed X args apiClient =
     on_args ''text'' args (\<lambda>a.
       call_then apiClient ''/embed'' (Some ''POST'') (embed_payload a)
         (\<lambda>result. case embed_output result of
                      Inl e \<Rightarrow> Inl e
                    | Inr out \<Rightarrow> Inr (json_stringify X out)))"

subsection \<open>The handlers that forward without checking\<close>

definition handleCloudFormation :: "externals \<Rightarrow> bag option \<Rightarrow> ApiClient \<Rightarrow> string effect" where
  "handleCloudFormation X args apiClient =
     on_args ''description'' args (\<lambda>a.
       call_then apiClient ''/generate/cloudformation'' (Some ''POST'')
         (JObj [(''description'', field a ''description''),
                (''format'', js_or (field a ''format'') (JStr ''sam'')),
                (''include_parameters'', js_nullish (field a ''include_parameters'') (JBool True)),
                (''include_outputs'', js_nullish (field a ''include_outputs'') (JBool True))])
         (render X ''handleCloudFormation''))"

definition handleOAuthValidate :: "externals \<Rightarrow> bag option \<Rightarrow> ApiClient \<Rightarrow> string effect" where
  "handleOAuthValidate X args apiClient =
     on_args ''provider'' args (\<lambda>a.
       call_then apiClient ''/validate/oauth'' (Some ''POST'')
         (JObj [(''provider'', field a ''provider''),
                (''client_id'', field a ''client_id''),
                (''redirect_uris'', field a ''redirect_uris''),
                (''scopes'', field a ''scopes''),
                (''token_endpoint'', field a ''token_endpoint''),
                (''authorization_endpoint'', field a ''authorization_endpoint'')])
         (render X ''handleOAuthValidate''))"

definition handleCatalog :: "externals \<Rightarrow> ApiClient \<Rightarrow> string effect" where
  "handleCatalog X apiClient =
     call_then apiClient ''/catalog'' (Some ''GET'') JUndefined (render X ''handleCatalog'')"

definition handleUsage :: "externals \<Rightarrow> ApiClient \<Rightarrow> string effect" where
  "handleUsage X apiClient =
     call_then apiClient ''/usage'' (Some ''GET'') JUndefined (render X ''handleUsage'')"

definition handleMfaCompliance :: "externals \<Rightarrow> bag option \<Rightarrow> ApiClient \<Rightarrow> string effect" where
  "handleMfaCompliance X args apiClient =
     on_args ''users'' args (\<lambda>a.
       call_then apiClient ''/validate/mfa-compliance'' (Some ''POST'')
         (JObj [(''users'', field a ''users''),
                (''root_account'', field a ''root_account''),
                (''policies'', field a ''policies'')])
         (render X ''handleMfaCompliance''))"

definition handleDynamoDbDesign :: "externals \<Rightarrow> bag option \<Rightarrow> ApiClient \<Rightarrow> string effect" where
  "handleDynamoDbDesign X args apiClient =
     on_args ''entities'' args (\<lambda>a.
       call_then apiClient ''/generate/dynamodb-design'' (Some ''POST'')
         (JObj [(''entities'', field a ''entities''),
                (''access_patterns'', field a ''access_patterns''),
                (''options'', field a ''options'')])
         (render X ''handleDynamoDbDesign''))"

definition handleErrorPatterns :: "externals \<Rightarrow> bag option \<Rightarrow> ApiClient \<Rightarrow> string effect" where
  "handleErrorPatterns X args apiClient =
     on_args ''errors'' args (\<lambda>a.
       call_then apiClient ''/analyze/error-patterns'' (Some ''POST'')
         (JObj [(''errors'', field a ''errors''),
                (''include_ai_analysis'', js_nullish (field a ''include_ai_analysis'') (JBool True))])
         (render X ''handleErrorPatterns''))"

definition handleDataLakeReadiness :: "externals \<Rightarrow> bag option \<Rightarrow> ApiClient \<Rightarrow> string effect" where
  "handleDataLakeReadiness X args apiClient =
     on_args ''storage'' args (\<lambda>a.
       call_then apiClient ''/check/data-lake-readiness'' (Some ''POST'')
         (JObj [(''storage'', field a ''storage''),
                (''catalog'', field a ''catalog''),
                (''security'', field a ''security''),
                (''performance'', field a ''performance''),
                (''operations'', field a ''operations'')])
         (render X ''handleDataLakeReadiness''))"

definition handleIamPolicyValidate :: "externals \<Rightarrow> bag option \<Rightarrow> ApiClient \<Rightarrow> string effect" where
  "handleIamPolicyValidate X args apiClient =
     on_args ''policy_document'' args (\<lambda>a.
       call_then apiClient ''/validate/iam-policy'' (Some ''POST'')
         (JObj [(''policy_document'', field a ''policy_document''),
                (''resource_type'', js_or (field a ''resource_type'') (JStr ''general'')),
                (''suggest_improvements'', js_nullish (field a ''suggest_improvements'') (JBool True))])
         (render X ''handleIamPolicyValidate''))"

definition handlePredictIssues :: "externals \<Rightarrow> bag option \<Rightarrow> ApiClient \<Rightarrow> string effect" where
  "handlePredictIssues X args apiClient =
     on_args ''system_state'' args (\<lambda>a.
       call_then apiClient ''/accelerators/predict/issues'' (Some ''POST'')
         (JObj [(''system_state'', field a ''system_state''),
                (''analysis_window_days'', js_or (field a ''analysis_window_days'') (JNum 30))])
         (render X ''handlePredictIssues''))"

definition handleTraceContext :: "externals \<Rightarrow> bag option \<Rightarrow> ApiClient \<Rightarrow> string effect" where
  "handleTraceContext X args apiClient =
     on_args ''parent_traceparent'' args (\<lambda>a.
       call_then apiClient ''/accelerators/trace/create'' (Some ''POST'')
         (JObj [(''parent_traceparent'', field a ''parent_traceparent''),
                (''service_name'', js_or (field a ''service_name'') (JStr ''s2t-agent''))])
         (render X ''handleTraceContext''))"

definition handleCliReadiness :: "externals \<Rightarrow> bag option \<Rightarrow> ApiClient \<Rightarrow> string effect" where
  "handleCliReadiness X args apiClient =
     on_args ''cli_tools'' args (\<lambda>a.
       call_then apiClient ''/accelerators/cli/validate'' (Some ''POST'')
         (JObj [(''cli_tools'', js_or (field a ''cli_tools'') (JArr [JStr ''codex''])),
                (''validate_api_keys'', js_nullish (field a ''validate_api_keys'') (JBool True))])
         (render X ''handleCliReadiness''))"

subsection \<open>The handlers that check their required parameters\<close>

text \<open>\<open>!v || typeof v !== "string"\<close>, the guard of every check below.\<close>

definition not_a_string :: "js \<Rightarrow> bool" where
  "not_a_string v = (\<not> truthy v \<or> typeof v \<noteq> ''string'')"

definition risk_payload :: "bag \<Rightarrow> js" where
  "risk_payload a =
     JObj [(''action'', field a ''action''),
           (''environment'', js_or (field a ''environment'') (JStr ''local'')),
           (''context'', js_or (field a ''context'') (JStr ''development''))]"

definition handleRiskClassify :: "externals \<Rightarrow> bag option \<Rightarrow> ApiClient \<Rightarrow> string effect" where
  "handleRiskClassify X args apiClient =
     on_args ''action'' args (\<lambda>a.
       if not_a_string (field a ''action'') then throw (Error (required_string ''action''))
       else call_then apiClient ''/accelerators/risk/classify'' (Some ''POST'') (risk_payload a)
              (render X ''handleRiskClassify''))"

definition handleTaskRouting :: "externals \<Rightarrow> bag option \<Rightarrow> ApiClient \<Rightarrow> string effect" where
  "handleTaskRouting X args apiClient =
     on_args ''task_description'' args (\<lambda>a.
       if not_a_string (field a ''task_description'')
       then throw (Error (required_string ''task_description''))
       else call_then apiClient ''/accelerators/agent/route'' (Some ''POST'')
              (JObj [(''task_description'', field a ''task_description''),
                     (''top_k'', js_or (field a ''top_k'') (JNum 5)),
                     (''include_capabilities'', js_nullish (field a ''include_capabilities'') (JBool True))])
              (render X ''handleTaskRouting''))"

definition handleAutoRecovery :: "externals \<Rightarrow> bag option \<Rightarrow> ApiClient \<Rightarrow> string effect" where
  "handleAutoRecovery X args apiClient =
     on_args ''error_message'' args (\<lambda>a.
       if not_a_string (field a ''error_message'')
       then throw (Error (required_string ''error_message''))
       else call_then apiClient ''/accelerators/recovery/attempt'' (Some ''POST'')
              (JObj [(''error_message'', field a ''error_message''),
                     (''error_source'', field a ''error_source''),
                     (''stack_trace'', field a ''stack_trace''),
                     (''auto_execute'', js_nullish (field a ''auto_execute'') (JBool False))])
              (render X ''handleAutoRecovery''))"

definition handleResilienceExecute :: "externals \<Rightarrow> bag option \<Rightarrow> ApiClient \<Rightarrow> string effect" where
  "handleResilienceExecute X args apiClient =
     on_args ''operation_id'' args (\<lambda>a.
       if not_a_string (field a ''operation_id'')
       then throw (Error (required_string ''operation_id''))
       else call_then apiClient ''/accelerators/resilience/execute'' (Some ''POST'')
              (JObj [(''operation_id'', field a ''operation_id''),
                     (''max_retries'', js_or (field a ''max_retries'') (JNum 3)),
                     (''base_delay_ms'', js_or (field a ''base_delay_ms'') (JNum 1000)),
                     (''circuit_breaker_threshold'', js_or (field a ''circuit_breaker_threshold'') (JNum 5))])
              (render X ''handleResilienceExecute''))"

definition handleAgentMemory :: "externals \<Rightarrow> bag option \<Rightarrow> ApiClient \<Rightarrow> string effect" where
  "handleAgentMemory X args apiClient =
     on_args ''operation'' args (\<lambda>a.
       if not_a_string (field a ''operation'') then throw (Error (required_string ''operation''))
       else if not_a_string (field a ''agent_id'') then throw (Error (required_string ''agent_id''))
       else call_then apiClient ''/accelerators/agent/memory'' (Some ''POST'')
              (JObj [(''operation'', field a ''operation''),
                     (''agent_id'', field a ''agent_id''),
                     (''key'', field a ''key''),
                     (''value'', field a ''value''),
                     (''namespace'', js_or (field a ''namespace'') (JStr ''default'')),
                     (''search_query'', field a ''search_query'')])
              (render X ''handleAgentMemory''))"

definition handleAgentTask :: "externals \<Rightarrow> bag option \<Rightarrow> ApiClient \<Rightarrow> string effect" where
  "handleAgentTask X args apiClient =
     on_args ''agent_id'' args (\<lambda>a.
       if not_a_string (field a ''agent_id'') then throw (Error (required_string ''agent_id''))
       else if not_a_string (field a ''prompt'') then throw (Error (required_string ''prompt''))
       else call_then apiClient ''/accelerators/agent/task'' (Some ''POST'')
              (JObj [(''agent_id'', field a ''agent_id''),
                     (''prompt'', field a ''prompt''),
                     (''priority'', js_or (field a ''priority'') (JStr ''normal'')),
                     (''trace_id'', field a ''trace_id'')])
              (render X ''handleAgentTask''))"

definition handleFileLock :: "externals \<Rightarrow> bag option \<Rightarrow> ApiClient \<Rightarrow> string effect" where
  "handleFileLock X args apiClient =
     on_args ''file_path'' args (\<lambda>a.
       if not_a_string (field a ''file_path'') then throw (Error (required_string ''file_path''))
       else call_then apiClient ''/accelerators/lock/acquire'' (Some ''POST'')
              (JObj [(''file_path'', field a ''file_path''),
                     (''operation'', js_or (field a ''operation'') (JStr ''acquire'')),
                     (''lock_token'', field a ''lock_token''),
                     (''timeout_ms'', js_or (field a ''timeout_ms'') (JNum 5000))])
              (render X ''handleFileLock''))"

section \<open>The dispatcher\<close>

text \<open>
  The \<open>CallToolRequestSchema\<close> handler of \<open>createMcpServer\<close>. The \<open>switch\<close> binds each
  operation name to its handler; \<open>default\<close> throws. The whole of it runs inside
  \<open>try\<close>, and the \<open>catch\<close> turns what was thrown into a result.
\<close>

record content_item =
  item_type :: string
  item_text :: string

record CallResult =
  content :: "content_item list"
  isError :: "bool option"

definition local_effect :: "thrown + string \<Rightarrow> string effect" where
  "local_effect r = ([], r)"

definition tool_switch :: "externals \<Rightarrow> ApiClient \<Rightarrow> string \<Rightarrow> bag option \<Rightarrow> string effect" where
  "tool_switch X apiClient name args =
    (if name = ''s2t_embed'' then handleEmbed X args apiClient
     else if name = ''s2t_generate_cloudformation'' then handleCloudFormation X args apiClient
     else if name = ''s2t_validate_oauth'' then handleOAuthValidate X args apiClient
     else if name = ''s2t_validate_iam_policy'' then handleIamPolicyValidate X args apiClient
     else if name = ''s2t_validate_mfa_compliance'' then handleMfaCompliance X args apiClient
     else if name = ''s2t_generate_dynamodb_design'' then handleDynamoDbDesign X args apiClient
     else if name = ''s2t_analyze_error_patterns'' then handleErrorPatterns X args apiClient
     else if name = ''s2t_check_data_lake_readiness'' then handleDataLakeReadiness X args apiClient
     else if name = ''s2t_catalog'' then handleCatalog X apiClient
     else if name = ''s2t_usage'' then handleUsage X apiClient
     else if name = ''s2t_classify_action_risk'' then handleRiskClassify X args apiClient
     else if name = ''s2t_route_task_to_agent'' then handleTaskRouting X args apiClient
     else if name = ''s2t_predict_system_issues'' then handlePredictIssues X args apiClient
     else if name = ''s2t_attempt_auto_recovery'' then handleAutoRecovery X args apiClient
     else if name = ''s2t_execute_with_resilience'' then handleResilienceExecute X args apiClient
     else if name = ''s2t_manage_agent_memory'' then handleAgentMemory X args apiClient
     else if name = ''s2t_submit_agent_task'' then handleAgentTask X args apiClient
     else if name = ''s2t_create_trace_context'' then handleTraceContext X args apiClient
     else if name = ''s2t_acquire_file_lock'' then handleFileLock X args apiClient
     else if name = ''s2t_validate_cli_readiness'' then handleCliReadiness X args apiClient
     else if name = ''aci_classify_decision'' then governance X ''handleAciClassify'' args apiClient
     else if name = ''aci_financial_gate'' then governance X ''handleAciFinancialGate'' args apiClient
     else if name = ''aci_compliance_check'' then governance X ''handleAciComplianceCheck'' args apiClient
     else if name = ''aci_route_domain'' then governance X ''handleAciRouteDomain'' args apiClient
     else if name = ''aci_parallel_review'' then governance X ''handleAciParallelReview'' args apiClient
     else if name = ''aci_synthesize_reviews'' then governance X ''handleAciSynthesizeReviews'' args apiClient
     else if name = ''aci_log_decision'' then governance X ''handleAciLogDecision'' args apiClient
     else if name = ''aci_recall_precedent'' then governance X ''handleAciRecallPrecedent'' args apiClient
     else if name = ''aci_record_outcome'' then governance X ''handleAciRecordOutcome'' args apiClient
     else if name = ''aci_estimate_blast_radius'' then governance X ''handleAciBlastRadius'' args apiClient
     else if name = ''aci_generate_rollback'' then governance X ''handleAciRollback'' args apiClient
     else if name = ''aci_governance_health'' then governance X ''handleAciGovernanceHealth'' args apiClient
     else if name = ''s2t_interview_create'' then local_effect (interview X ''handleInterviewCreate'' args)
     else if name = ''s2t_interview_message'' then local_effect (interview X ''handleInterviewMessage'' args)
     else if name = ''s2t_interview_summary'' then local_effect (interview X ''handleInterviewSummary'' args)
     else if name = ''s2t_interview_list'' then local_effect (interview X ''handleInterviewList'' args)
     else throw (Error (''Unknown tool: '' @ name)))"

text \<open>\<open>error instanceof Error ? error.message : String(error)\<close>.\<close>

fun errorMessage :: "thrown \<Rightarrow> string" where
  "errorMessage (Error m) = m"
| "errorMessage (NonError s) = s"

definition text_item :: "string \<Rightarrow> content_item" where
  "text_item t = \<lparr> item_type = ''text'', item_text = t \<rparr>"

text \<open>
  The handler as a whole. Its own outcome is again "returns or throws": the \<open>Inl\<close>
  side is what the transport layer would see as an unhandled fault.
\<close>

definition call_tool :: "externals \<Rightarrow> ApiClient \<Rightarrow> string \<Rightarrow> bag option \<Rightarrow> CallResult effect" where
  "call_tool X apiClient name args =
     (case tool_switch X apiClient name args of
        (calls, Inr result) \<Rightarrow>
          (calls, Inr \<lparr> content = [text_item result], isError = None \<rparr>)
      | (calls, Inl error) \<Rightarrow>
          (calls, Inr \<lparr> content = [text_item (''Error: '' @ errorMessage error)],
                        isError = Some True \<rparr>))"

section \<open>The HTTP server\<close>

text \<open>
  \<open>http-server.ts\<close>. A transport object is known by its identity, a number given
  out when it is constructed. The two session stores are JavaScript \<open>Map\<close>s: lists
  of entries in insertion order, where \<open>set\<close> replaces the value of a key in place
  or appends (\<open>AList.update\<close>) and \<open>delete\<close> removes the key (\<open>AList.delete\<close>).
  A legacy transport carries the \<open>_sessionId\<close> the library gave it.
\<close>

type_synonym transport = nat

record server =
  streamableTransports :: "(string \<times> transport) list"
  sseTransports :: "(string \<times> transport \<times> string) list"
  next_transport :: transport

definition initial_server :: server where
  "initial_server = \<lparr> streamableTransports = [], sseTransports = [], next_transport = 0 \<rparr>"

datatype verb = GET | POST | DELETE | OPTIONS | OTHER

text \<open>
  A request, as far as the server looks at it: the method and path, the \<open>Origin\<close>
  and \<open>Mcp-Session-Id\<close> headers, the \<open>sessionId\<close> query parameter, and its body.
  Of the body two things matter: whether \<open>express.json()\<close> accepts it (\<open>body_error\<close> is
  the status of the error it raises otherwise: 400 for JSON that does not parse,
  413 for a body that is too large, and so on), and whether, once parsed, it is an
  initialize request (\<open>isInitializeRequest(req.body)\<close>).
\<close>

record request =
  verb :: verb
  path :: string
  origin :: "string option"
  mcp_session_id :: "string option"
  body_error :: "nat option"
  initialize :: bool
  query_sessionId :: "string option"

text \<open>
  What the protocol library and the runtime do while a request is handled is not
  decided by this program, so it is an input of the model: the callbacks of the
  transport that the library invokes during \<open>handleRequest\<close>, in order; whether
  \<open>handleRequest\<close> returns or rejects; and, for a legacy connection, the outcome of
  \<open>randomUUID()\<close> and the \<open>_sessionId\<close> of the new transport.
\<close>

datatype sdk_callback = SessionInitialized string | Close

record sdk_reaction =
  callbacks :: "sdk_callback list"
  completes :: bool
  uuid :: string
  sse_sessionId :: string

subsection \<open>Cross-origin policy\<close>

text \<open>
  \<open>ALLOWED_ORIGINS\<close> is read from the environment once:
  \<open>new Set((process.env.S2T_CORS_ORIGINS || "").split(",").filter(Boolean))\<close>.
  \<open>new URL(origin).hostname\<close> is a parameter (\<open>None\<close> when the constructor throws).
\<close>

fun split_on :: "char \<Rightarrow> string \<Rightarrow> string list" where
  "split_on c [] = [[]]"
| "split_on c (x # xs) =
     (if x = c then [] # split_on c xs
      else (case split_on c xs of [] \<Rightarrow> [[x]] | w # ws \<Rightarrow> (x # w) # ws))"

definition ALLOWED_ORIGINS :: "string option \<Rightarrow> string list" where
  "ALLOWED_ORIGINS env =
     filter (\<lambda>s. s \<noteq> []) (split_on (CHR '','') (case env of None \<Rightarrow> [] | Some v \<Rightarrow> v))"

record config =
  S2T_CORS_ORIGINS :: "string option"
  url_hostname :: "string \<Rightarrow> string option"

definition endsWith :: "string \<Rightarrow> string \<Rightarrow> bool" where
  "endsWith s suffix =
     (length suffix \<le> length s \<and> drop (length s - length suffix) s = suffix)"

text \<open>
  A header or query value has the type \<open>string | undefined\<close>. Used as a condition
  it holds when there is a value and the value is not the empty string.
\<close>

fun given :: "string option \<Rightarrow> bool" where
  "given None = False"
| "given (Some v) = (v \<noteq> [])"

fun isOriginAllowed :: "config \<Rightarrow> string option \<Rightarrow> bool" where
  "isOriginAllowed cfg None = True"
| "isOriginAllowed cfg (Some v) =
     (if v = [] then True
      else if ALLOWED_ORIGINS (S2T_CORS_ORIGINS cfg) = [] then True
      else if v \<in> set (ALLOWED_ORIGINS (S2T_CORS_ORIGINS cfg)) then True
      else (case url_hostname cfg v of
              None \<Rightarrow> False
            | Some hostname \<Rightarrow>
                if hostname = ''s2tconsulting.com'' \<or> endsWith hostname ''.s2tconsulting.com''
                then True else False))"

text \<open>\<open>origin || "*"\<close>.\<close>

fun origin_or_star :: "string option \<Rightarrow> string" where
  "origin_or_star None = ''*''"
| "origin_or_star (Some v) = (if v = [] then ''*'' else v)"

subsection \<open>Routes\<close>

datatype body =
    JsonRpcError int string
  | ErrorText string
  | Health nat nat
  | BySdk transport
  | ErrorPage
  | NoBody
  | Unhandled

record response =
  status_code :: "nat option"
  allow_origin :: "string option"
  resp_body :: body

definition has :: "(string \<times> 'v) list \<Rightarrow> string \<Rightarrow> bool" where
  "has store k = (map_of store k \<noteq> None)"

text \<open>
  The two callbacks installed on a streamable transport when it is constructed:
  \<open>onsessioninitialized\<close> stores it under the new session id, \<open>onclose\<close> looks for the
  first entry holding this very transport and deletes its key.
\<close>

definition onsessioninitialized ::
  "transport \<Rightarrow> string \<Rightarrow> (string \<times> transport) list \<Rightarrow> (string \<times> transport) list" where
  "onsessioninitialized transport newSessionId store = AList.update newSessionId transport store"

definition onclose :: "transport \<Rightarrow> (string \<times> transport) list \<Rightarrow> (string \<times> transport) list" where
  "onclose transport store =
     (case find (\<lambda>e. snd e = transport) store of
        None \<Rightarrow> store
      | Some (sid, t) \<Rightarrow> if sid \<noteq> [] then AList.delete sid store else store)"

fun run_callbacks ::
  "transport \<Rightarrow> sdk_callback list \<Rightarrow> (string \<times> transport) list \<Rightarrow> (string \<times> transport) list" where
  "run_callbacks t [] store = store"
| "run_callbacks t (SessionInitialized sid # cs) store =
     run_callbacks t cs (onsessioninitialized t sid store)"
| "run_callbacks t (Close # cs) store = run_callbacks t cs (onclose t store)"

text \<open>
  \<open>await transport.handleRequest(req, res, ...)\<close>: the library writes the response,
  and the callbacks it invokes act on the store. When it rejects, the rest of the
  route does not run and the route has written no response.
\<close>

definition handleRequest :: "transport \<Rightarrow> sdk_reaction \<Rightarrow> server \<Rightarrow> (nat option \<times> body) \<times> server" where
  "handleRequest t sdk s =
     ((None, if completes sdk then BySdk t else Unhandled),
      s\<lparr> streamableTransports := run_callbacks t (callbacks sdk) (streamableTransports s) \<rparr>)"

definition no_valid_session :: "nat option \<times> body" where
  "no_valid_session =
     (Some 400, JsonRpcError (- 32000)
        ''Bad request: no valid session. Send an initialize request first.'')"

definition invalid_session :: "nat option \<times> body" where
  "invalid_session =
     (Some 400, JsonRpcError (- 32000) ''Bad request: invalid or missing session ID.'')"

text \<open>
  \<open>sessionId && streamableTransports.has(sessionId)\<close> followed by
  \<open>streamableTransports.get(sessionId)!\<close>: the transport stored under the token of
  the request, if the request bears a token and the store has it.
\<close>

fun stored :: "string option \<Rightarrow> (string \<times> transport) list \<Rightarrow> transport option" where
  "stored None store = None"
| "stored (Some sessionId) store = (if sessionId = [] then None else map_of store sessionId)"

definition post_mcp :: "request \<Rightarrow> sdk_reaction \<Rightarrow> server \<Rightarrow> (nat option \<times> body) \<times> server" where
  "post_mcp req sdk s =
     (case stored (mcp_session_id req) (streamableTransports s) of
        Some transport \<Rightarrow> handleRequest transport sdk s
      | None \<Rightarrow>
          if \<not> given (mcp_session_id req) \<and> initialize req then
            handleRequest (next_transport s) sdk (s\<lparr> next_transport := Suc (next_transport s) \<rparr>)
          else (no_valid_session, s))"

definition get_mcp :: "request \<Rightarrow> sdk_reaction \<Rightarrow> server \<Rightarrow> (nat option \<times> body) \<times> server" where
  "get_mcp req sdk s =
     (case stored (mcp_session_id req) (streamableTransports s) of
        None \<Rightarrow> (invalid_session, s)
      | Some transport \<Rightarrow> handleRequest transport sdk s)"

text \<open>
  In \<open>DELETE /mcp\<close> the entry is deleted after \<open>await transport.handleRequest\<close>, so
  only when that returns.
\<close>

definition delete_mcp :: "request \<Rightarrow> sdk_reaction \<Rightarrow> server \<Rightarrow> (nat option \<times> body) \<times> server" where
  "delete_mcp req sdk s =
     (case mcp_session_id req of
        None \<Rightarrow> (invalid_session, s)
      | Some sessionId \<Rightarrow>
          (case stored (Some sessionId) (streamableTransports s) of
             None \<Rightarrow> (invalid_session, s)
           | Some transport \<Rightarrow>
               (case handleRequest transport sdk s of
                  (r, s') \<Rightarrow>
                    if completes sdk
                    then (r, s'\<lparr> streamableTransports :=
                                   AList.delete sessionId (streamableTransports s') \<rparr>)
                    else (r, s'))))"

definition get_sse :: "sdk_reaction \<Rightarrow> server \<Rightarrow> (nat option \<times> body) \<times> server" where
  "get_sse sdk s =
     ((None, BySdk (next_transport s)),
      s\<lparr> sseTransports :=
            AList.update (uuid sdk) (next_transport s, sse_sessionId sdk) (sseTransports s),
         next_transport := Suc (next_transport s) \<rparr>)"

definition post_messages :: "request \<Rightarrow> server \<Rightarrow> (nat option \<times> body) \<times> server" where
  "post_messages req s =
     (case query_sessionId req of
        None \<Rightarrow> ((Some 400, ErrorText ''Missing sessionId query parameter''), s)
      | Some sessionId \<Rightarrow>
          if sessionId = [] then ((Some 400, ErrorText ''Missing sessionId query parameter''), s)
          else
            (case find (\<lambda>e. snd (snd e) = sessionId) (sseTransports s) of
               None \<Rightarrow>
                 ((Some 404, ErrorText ''Session not found. Connect via GET /sse first.''), s)
             | Some (cid, t, sid) \<Rightarrow> ((None, BySdk t), s)))"

definition health :: "server \<Rightarrow> (nat option \<times> body) \<times> server" where
  "health s =
     ((Some 200, Health (length (streamableTransports s)) (length (sseTransports s))), s)"

text \<open>The routes in the order they are registered; no route matching is Express's 404.\<close>

definition route :: "request \<Rightarrow> sdk_reaction \<Rightarrow> server \<Rightarrow> (nat option \<times> body) \<times> server" where
  "route req sdk s =
     (if verb req = POST \<and> path req = ''/mcp'' then post_mcp req sdk s
      else if verb req = GET \<and> path req = ''/mcp'' then get_mcp req sdk s
      else if verb req = DELETE \<and> path req = ''/mcp'' then delete_mcp req sdk s
      else if verb req = GET \<and> path req = ''/sse'' then get_sse sdk s
      else if verb req = POST \<and> path req = ''/messages'' then post_messages req s
      else if verb req = GET \<and> path req = ''/health'' then health s
      else ((Some 404, NoBody), s))"

text \<open>
  The second middleware, \<open>app.use(express.json())\<close>, and what comes after it. When
  the body parser raises an error no route runs: Express's error handler answers
  with the status of the error and its error page, and the server is as before.
  Otherwise the request goes to the routes.
\<close>

definition express_json :: "request \<Rightarrow> sdk_reaction \<Rightarrow> server \<Rightarrow> (nat option \<times> body) \<times> server" where
  "express_json req sdk s =
     (case body_error req of
        Some st \<Rightarrow> ((Some st, ErrorPage), s)
      | None \<Rightarrow> route req sdk s)"

text \<open>
  The first middleware (\<open>app.use\<close>): it sets \<open>Access-Control-Allow-Origin\<close> when the
  origin is allowed, answers \<open>OPTIONS\<close> itself, and otherwise calls \<open>next()\<close>, which
  is the body parser. The other headers it sets are the same on every response
  and are left out.
\<close>

definition handle_http :: "config \<Rightarrow> request \<Rightarrow> sdk_reaction \<Rightarrow> server \<Rightarrow> response \<times> server" where
  "handle_http cfg req sdk s =
     (let allow = (if isOriginAllowed cfg (origin req)
                   then Some (origin_or_star (origin req))
                   else None)
      in if verb req = OPTIONS then
           (\<lparr> status_code = Some 204, allow_origin = allow, resp_body = NoBody \<rparr>, s)
         else
           (case express_json req sdk s of
              ((st, b), s') \<Rightarrow> (\<lparr> status_code = st, allow_origin = allow, resp_body = b \<rparr>, s')))"

text \<open>
  What can happen to the server between two moments: a request, the close of the
  response stream of a legacy connection (\<open>res.on("close")\<close>), or the library
  closing a streamable transport on its own (\<open>transport.onclose\<close>).
\<close>

datatype event = Http request sdk_reaction | SseClose string | StreamClose transport

fun step :: "config \<Rightarrow> server \<Rightarrow> event \<Rightarrow> server" where
  "step cfg s (Http req sdk) = snd (handle_http cfg req sdk s)"
| "step cfg s (SseClose connectionId) =
     s\<lparr> sseTransports := AList.delete connectionId (sseTransports s) \<rparr>"
| "step cfg s (StreamClose t) =
     s\<lparr> streamableTransports := onclose t (streamableTransports s) \<rparr>"

definition run :: "config \<Rightarrow> server \<Rightarrow> event list \<Rightarrow> server" where
  "run cfg s evs = foldl (step cfg) s evs"

subsection \<open>Shutdown\<close>

text \<open>
  \<open>transport.close()\<close> belongs to the library. What matters here is whether it
  invokes \<open>onclose\<close> before it returns its promise, and how that promise settles,
  if it does.
\<close>

datatype settlement = Fulfilled | Rejected string | Pending

record close_reaction =
  fires_onclose :: bool
  settles :: settlement

text \<open>
  The \<open>for ... of\<close> loop over the live map. \<open>todo\<close> holds the entries the iterator
  has not reached; an entry deleted from the map by an \<open>onclose\<close> during the loop is
  not visited. The result is the list of transports whose \<open>close()\<close> was called, each
  with its settlement, and the store after the loop.
\<close>

function close_all ::
  "(transport \<Rightarrow> close_reaction) \<Rightarrow> (string \<times> transport) list \<Rightarrow> (string \<times> transport) list
     \<Rightarrow> (string \<times> transport \<times> settlement) list \<times> (string \<times> transport) list" where
  "close_all sdk [] store = ([], store)"
| "close_all sdk ((sid, t) # todo) store =
     (let store' = (if fires_onclose (sdk t) then onclose t store else store);
          todo' = filter (\<lambda>e. has store' (fst e)) todo;
          rest = close_all sdk todo' store'
      in ((sid, t, settles (sdk t)) # fst rest, snd rest))"
  by pat_completeness auto
termination
  by (relation "measure (\<lambda>(sdk, todo, store). length todo)") (auto simp: less_Suc_eq_le)

text \<open>
  \<open>shutdown\<close>: the loop, then \<open>await Promise.allSettled(...)\<close>, during which other
  events may be served, then both stores are cleared. Every promise in the list
  has a \<open>catch\<close> that logs, so each is fulfilled once its \<open>close()\<close> has settled; if
  some \<open>close()\<close> never settles the \<open>await\<close> never resumes (\<open>None\<close>).
\<close>

record shutdown_result =
  closed :: "(string \<times> transport \<times> settlement) list"
  after :: "server option"

definition shutdown ::
  "config \<Rightarrow> (transport \<Rightarrow> close_reaction) \<Rightarrow> event list \<Rightarrow> server \<Rightarrow> shutdown_result" where
  "shutdown cfg sdk during s =
     (case close_all sdk (streamableTransports s) (streamableTransports s) of
        (log, store) \<Rightarrow>
          \<lparr> closed = log,
            after =
              (if list_ex (\<lambda>e. snd (snd e) = Pending) log then None
               else Some ((run cfg (s\<lparr> streamableTransports := store \<rparr>) during)
                            \<lparr> streamableTransports := [], sseTransports := [] \<rparr>)) \<rparr>)"

section \<open>Shapes and inputs used in the statements\<close>





text \<open>Stand-ins for the parameters, for the concrete runs.\<close>

definition no_stringify :: "js \<Rightarrow> string" where
  "no_stringify = (\<lambda>v. [])"

definition no_externals :: externals where
  "no_externals =
     \<lparr> json_stringify = no_stringify,
       render = (\<lambda>h r. Inr []),
       governance = (\<lambda>h a c. ([], Inr [])),
       interview = (\<lambda>h a. Inr []) \<rparr>"

definition client_null :: ApiClient where
  "client_null = (\<lambda>ep m b. Inr JNull)"

definition no_ToString :: "js \<Rightarrow> thrown + string" where
  "no_ToString = (\<lambda>v. Inr [])"

text \<open>A 500 response whose body is \<open>{"error": {"message": ""}}\<close>.\<close>

definition json_of_empty_message :: js where
  "json_of_empty_message = JObj [(''error'', JObj [(''message'', JStr [])])]"

definition fetch_500_empty_message :: network where
  "fetch_500_empty_message = (\<lambda>r. Inr \<lparr> status = 500, json = Inr json_of_empty_message \<rparr>)"

text \<open>A 404 response whose body is \<open>{"error": {"message": "Not found"}}\<close>.\<close>

definition json_not_found :: js where
  "json_not_found = JObj [(''error'', JObj [(''message'', JStr ''Not found'')])]"

definition response_404 :: http_response where
  "response_404 = \<lparr> status = 404, json = Inr json_not_found \<rparr>"

definition fetch_404 :: network where
  "fetch_404 = (\<lambda>r. Inr response_404)"

text \<open>Argument bags for the risk classification.\<close>

definition args_action_context :: bag where
  "args_action_context =
     [(''action'', JStr ''rm -rf /tmp/cache''), (''context'', JStr ''production'')]"

definition args_action_only :: bag where
  "args_action_only = [(''action'', JStr ''rm -rf /tmp/cache'')]"

definition args_action_number :: bag where
  "args_action_number = [(''action'', JNum 123)]"

definition args_action_staging :: bag where
  "args_action_staging =
     [(''action'', JStr ''rm -rf /tmp/cache''), (''environment'', JStr ''staging''),
      (''context'', JStr ''production'')]"

text \<open>The embedding scenario: one chunk of 150 characters.\<close>

definition text_150 :: string where
  "text_150 = replicate 150 (CHR ''A'')"

definition chunk_150 :: js where
  "chunk_150 = JObj [(''text'', JStr text_150), (''metadata'', JObj [(''word_count'', JNum 1)])]"

definition response_150 :: js where
  "response_150 =
     JObj [(''chunks'', JArr [chunk_150]),
           (''summary'', JObj [(''total_chunks'', JNum 1),
                               (''model'', JStr ''amazon.titan-embed-text-v2:0''),
                               (''dimensions'', JNum 1024)]),
           (''usage'', JObj [(''tokens_used'', JNum 40)])]"

definition client_150 :: ApiClient where
  "client_150 = (\<lambda>ep m b. Inr response_150)"

text \<open>An argument bag in which every optional field of the embedding is falsy.\<close>

definition args_all_falsy :: bag where
  "args_all_falsy =
     [(''text'', JStr ''hello''), (''model'', JStr []), (''chunk_size'', JNum 0),
      (''chunk_overlap'', JNum 0)]"

text \<open>An argument bag in which the caller chose every optional field.\<close>

definition args_custom :: bag where
  "args_custom =
     [(''text'', JStr ''hello''), (''model'', JStr ''amazon.titan-embed-text-v1''),
      (''chunk_size'', JNum 256), (''chunk_overlap'', JNum 25)]"

text \<open>
  A server with an allow-list, and an initialize request from an origin that is not
  on it, to which the library reacts by issuing the session id \<open>session-1\<close>.
\<close>

definition cfg_allowlist :: config where
  "cfg_allowlist =
     \<lparr> S2T_CORS_ORIGINS = Some ''https://app.example.com'',
       url_hostname = (\<lambda>u. if u = ''https://evil.example'' then Some ''evil.example'' else None) \<rparr>"

definition init_from_evil :: request where
  "init_from_evil =
     \<lparr> verb = POST, path = ''/mcp'', origin = Some ''https://evil.example'',
       mcp_session_id = None, body_error = None, initialize = True, query_sessionId = None \<rparr>"

definition sdk_issues_session_1 :: sdk_reaction where
  "sdk_issues_session_1 =
     \<lparr> callbacks = [SessionInitialized ''session-1''], completes = True, uuid = [],
       sse_sessionId = [] \<rparr>"

text \<open>
  A second session, the library's reaction to a termination request (it closes the
  transport), and the requests of one session's life: created as \<open>session-1\<close>,
  terminated, and used again afterwards.
\<close>

definition sdk_issues_session_2 :: sdk_reaction where
  "sdk_issues_session_2 =
     \<lparr> callbacks = [SessionInitialized ''session-2''], completes = True, uuid = [],
       sse_sessionId = [] \<rparr>"

definition sdk_closes :: sdk_reaction where
  "sdk_closes = \<lparr> callbacks = [Close], completes = True, uuid = [], sse_sessionId = [] \<rparr>"

definition delete_session_1 :: request where
  "delete_session_1 =
     \<lparr> verb = DELETE, path = ''/mcp'', origin = None, mcp_session_id = Some ''session-1'',
       body_error = None, initialize = False, query_sessionId = None \<rparr>"

definition post_session_1 :: request where
  "post_session_1 =
     \<lparr> verb = POST, path = ''/mcp'', origin = None, mcp_session_id = Some ''session-1'',
       body_error = None, initialize = False, query_sessionId = None \<rparr>"

text \<open>The same request with a body that is not JSON.\<close>

definition post_session_1_unparsed :: request where
  "post_session_1_unparsed =
     \<lparr> verb = POST, path = ''/mcp'', origin = None, mcp_session_id = Some ''session-1'',
       body_error = Some 400, initialize = False, query_sessionId = None \<rparr>"

definition lifecycle :: "event list" where
  "lifecycle =
     [Http init_from_evil sdk_issues_session_1, Http delete_session_1 sdk_closes,
      Http init_from_evil sdk_issues_session_2]"

text \<open>
  An event re-issues a token when the library announces it as a new session id.
  Session ids come from \<open>randomUUID()\<close>, so a terminated token is not announced
  again.
\<close>

fun issues :: "string \<Rightarrow> event \<Rightarrow> bool" where
  "issues t (Http req sdk) = (SessionInitialized t \<in> set (callbacks sdk))"
| "issues t (SseClose c) = False"
| "issues t (StreamClose tr) = False"

text \<open>Two open sessions, and a library whose first \<open>close()\<close> rejects.\<close>

definition two_sessions :: "event list" where
  "two_sessions = [Http init_from_evil sdk_issues_session_1, Http init_from_evil sdk_issues_session_2]"

definition close_first_fails :: "transport \<Rightarrow> close_reaction" where
  "close_first_fails t =
     (if t = 0 then \<lparr> fires_onclose = True, settles = Rejected ''socket hang up'' \<rparr>
      else \<lparr> fires_onclose = True, settles = Fulfilled \<rparr>)"

text \<open>A library whose second \<open>close()\<close> never settles.\<close>

definition close_second_hangs :: "transport \<Rightarrow> close_reaction" where
  "close_second_hangs t =
     (if t = 1 then \<lparr> fires_onclose = False, settles = Pending \<rparr>
      else \<lparr> fires_onclose = True, settles = Fulfilled \<rparr>)"

section \<open>The dispatcher never raises\<close>

text \<open>
  C1. For every operation name and every argument bag, also an omitted one, the
  tool-call handler returns a result and lets nothing propagate: what the
  \<open>switch\<close> returns is wrapped as \<open>{ content: [text] }\<close>, and whatever it throws is
  wrapped as \<open>{ content: ["Error: " + message], isError: true }\<close>. The calls made
  are those of the handler.
\<close>

theorem call_tool_never_throws:
  "call_tool X apiClient name args =
     (fst (tool_switch X apiClient name args),
      Inr (case snd (tool_switch X apiClient name args) of
             Inr result \<Rightarrow> \<lparr> content = [text_item result], isError = None \<rparr>
           | Inl error \<Rightarrow> \<lparr> content = [text_item (''Error: '' @ errorMessage error)],
                                isError = Some True \<rparr>))"
  by (simp add: call_tool_def split: prod.splits sum.splits)

text \<open>
  C4. Dispatching \<open>s2t_does_not_exist\<close> with any argument bag returns an error
  result whose text carries \<open>Unknown tool: s2t_does_not_exist\<close>, and the client is
  not called.
\<close>

theorem unknown_tool:
  "call_tool X apiClient ''s2t_does_not_exist'' args =
     ([], Inr \<lparr> content = [text_item ''Error: Unknown tool: s2t_does_not_exist''],
                 isError = Some True \<rparr>)"
  by (simp add: call_tool_def tool_switch_def throw_def)

section \<open>Failures of the remote call\<close>

text \<open>
  The claim C3 says that on a non-success status the message is the body's
  \<open>error.message\<close> whenever that field is present. The fallback of the code is taken
  by truthiness: a body \<open>{"error": {"message": ""}}\<close> has the field, and the message
  is the generic one.
\<close>

theorem callApi_empty_message_counterexample:
  "read_opt (read_opt json_of_empty_message ''error'') ''message'' = JStr []
   \<and> callApi no_stringify no_ToString fetch_500_empty_message ''https://api.example'' ''key''
         ''/embed'' (Some ''POST'') JUndefined
       = Inl (Error ''API error: 500'')"
  by (simp add: callApi_def fetch_500_empty_message_def json_of_empty_message_def read_opt_def
      read_def field_def ok_def js_or_def new_Error_def)

text \<open>
  C3, amended. When the remote service responds with a non-success status and a
  parsed body other than \<open>null\<close>, \<open>callApi\<close> rejects, for every endpoint, method and
  body. When the body's \<open>error.message\<close> is a non-empty string, the error's message
  is that string. When it is falsy or absent, the message is exactly
  \<open>API error: <status code>\<close>. When it is a truthy value that is not a string, the
  \<open>Error\<close> constructor coerces it: the message is the string the coercion gives,
  and if the coercion throws, \<open>callApi\<close> rejects with what it throws.
\<close>

theorem callApi_non_success:
  assumes "fetch (build_request stringify baseUrl apiKey endpoint (method_or_default method) body)
             = Inr response"
    and "json response = Inr data"
    and "\<not> ok response"
    and "data \<noteq> JNull" and "data \<noteq> JUndefined"
  shows "callApi stringify ToString fetch baseUrl apiKey endpoint method body =
           Inl (if truthy (read_opt (read_opt data ''error'') ''message'')
                then (case read_opt (read_opt data ''error'') ''message'' of
                        JStr m \<Rightarrow> Error m
                      | v \<Rightarrow> (case ToString v of Inl e \<Rightarrow> e | Inr m \<Rightarrow> Error m))
                else Error (''API error: '' @ digits (unat (status response))))"
  using assms
  by (cases data) (simp_all add: callApi_def read_def read_opt_def js_or_def new_Error_def)

theorem callApi_non_success_witness:
  "callApi no_stringify no_ToString fetch_404 ''https://api.example'' ''key'' ''/catalog'' None
       JUndefined
     = Inl (Error ''Not found'')"
proof -
  have 1: "fetch_404 (build_request no_stringify ''https://api.example'' ''key'' ''/catalog''
             (method_or_default None) JUndefined) = Inr response_404"
    by (simp add: fetch_404_def)
  have 2: "json response_404 = Inr json_not_found"
    by (simp add: response_404_def)
  have 3: "\<not> ok response_404"
    by (simp add: ok_def response_404_def)
  have 4: "json_not_found \<noteq> JNull" and 5: "json_not_found \<noteq> JUndefined"
    by (simp_all add: json_not_found_def)
  from callApi_non_success [of fetch_404 no_stringify _ _ _ None JUndefined _ _ no_ToString,
      OF 1 2 3 4 5]
  show ?thesis
    by (simp add: json_not_found_def read_opt_def field_def)
qed

section \<open>Required parameters and defaults\<close>

text \<open>
  The claim C8 says that a call with \<open>action\<close> present and \<open>environment\<close> omitted
  forwards \<open>context: "development"\<close>. The default of \<open>context\<close> applies only when
  the caller gave none: in the first call below the caller's \<open>production\<close> is
  forwarded. A present \<open>action\<close> is not enough for a payload to be forwarded: in
  the second call \<open>action\<close> is the number 123, \<open>environment\<close> is omitted, and the
  handler fails before any call. And in a call with no argument bag at all the
  \<open>action\<close> is missing, and the failure is the \<open>TypeError\<close> of reading a property of
  \<open>undefined\<close>, not the required-parameter error.
\<close>

theorem risk_context_counterexample:
  "map_of args_action_context ''action'' = Some (JStr ''rm -rf /tmp/cache'')
   \<and> map_of args_action_context ''environment'' = None
   \<and> map call_body (fst (handleRiskClassify no_externals (Some args_action_context) client_null))
       = [JObj [(''action'', JStr ''rm -rf /tmp/cache''),
                (''environment'', JStr ''local''),
                (''context'', JStr ''production'')]]
   \<and> map_of args_action_number ''action'' = Some (JNum 123)
   \<and> map_of args_action_number ''environment'' = None
   \<and> handleRiskClassify no_externals (Some args_action_number) client_null
       = ([], Inl (Error ''Required parameter 'action' must be a non-empty string''))
   \<and> handleRiskClassify no_externals None client_null
       = ([], Inl (Error ''Cannot read properties of undefined (reading 'action')''))"
  by (simp add: args_action_context_def args_action_number_def handleRiskClassify_def on_args_def
      not_a_string_def field_def call_then_def risk_payload_def js_or_def throw_def
      required_string_def cannot_read_def)

lemma risk_calls:
  assumes "\<not> not_a_string (field a ''action'')"
  shows "handleRiskClassify X (Some a) apiClient =
           call_then apiClient ''/accelerators/risk/classify'' (Some ''POST'') (risk_payload a)
             (render X ''handleRiskClassify'')"
  using assms by (simp add: handleRiskClassify_def on_args_def)

text \<open>
  C8, amended. For the risk-classification operation, called with an argument
  bag: when \<open>action\<close> is a non-empty string, one call is made, whose payload
  carries the \<open>action\<close>, the caller's \<open>environment\<close> if truthy and \<open>local\<close>
  otherwise, the caller's \<open>context\<close> if truthy and \<open>development\<close> otherwise; so a
  call that omits both \<open>environment\<close> and \<open>context\<close> forwards \<open>local\<close> and
  \<open>development\<close>. When the bag lacks \<open>action\<close>, or \<open>action\<close> is not a string or is
  the empty string, the handler fails with the required-parameter error before
  any remote call. Called with no argument bag at all, it fails with a
  \<open>TypeError\<close>, also before any remote call.
\<close>

theorem risk_classify_defaults:
  "(typeof (field a ''action'') = ''string'' \<and> field a ''action'' \<noteq> JStr []
    \<longrightarrow> fst (handleRiskClassify X (Some a) apiClient) =
          [\<lparr> call_endpoint = ''/accelerators/risk/classify'', call_method = Some ''POST'',
             call_body =
               JObj [(''action'', field a ''action''),
                     (''environment'', if truthy (field a ''environment'')
                                       then field a ''environment'' else JStr ''local''),
                     (''context'', if truthy (field a ''context'')
                                   then field a ''context'' else JStr ''development'')] \<rparr>])
   \<and> (typeof (field a ''action'') = ''string'' \<and> field a ''action'' \<noteq> JStr []
      \<and> map_of a ''environment'' = None \<and> map_of a ''context'' = None
    \<longrightarrow> fst (handleRiskClassify X (Some a) apiClient) =
          [\<lparr> call_endpoint = ''/accelerators/risk/classify'', call_method = Some ''POST'',
             call_body = JObj [(''action'', field a ''action''),
                               (''environment'', JStr ''local''),
                               (''context'', JStr ''development'')] \<rparr>])
   \<and> (map_of b ''action'' = None
    \<longrightarrow> handleRiskClassify X (Some b) apiClient =
          ([], Inl (Error ''Required parameter 'action' must be a non-empty string'')))
   \<and> (typeof (field c ''action'') \<noteq> ''string'' \<or> field c ''action'' = JStr []
    \<longrightarrow> handleRiskClassify X (Some c) apiClient =
          ([], Inl (Error ''Required parameter 'action' must be a non-empty string'')))
   \<and> handleRiskClassify X None apiClient =
          ([], Inl (Error ''Cannot read properties of undefined (reading 'action')''))"
proof (intro conjI impI)
  assume h: "typeof (field a ''action'') = ''string'' \<and> field a ''action'' \<noteq> JStr []"
  then have "\<not> not_a_string (field a ''action'')"
    by (cases "field a ''action''") (simp_all add: not_a_string_def)
  from risk_calls [OF this]
  show "fst (handleRiskClassify X (Some a) apiClient) =
          [\<lparr> call_endpoint = ''/accelerators/risk/classify'', call_method = Some ''POST'',
             call_body =
               JObj [(''action'', field a ''action''),
                     (''environment'', if truthy (field a ''environment'')
                                       then field a ''environment'' else JStr ''local''),
                     (''context'', if truthy (field a ''context'')
                                   then field a ''context'' else JStr ''development'')] \<rparr>]"
    by (simp add: call_then_def risk_payload_def js_or_def)
next
  assume h: "typeof (field a ''action'') = ''string'' \<and> field a ''action'' \<noteq> JStr []
      \<and> map_of a ''environment'' = None \<and> map_of a ''context'' = None"
  then have "\<not> not_a_string (field a ''action'')"
    by (cases "field a ''action''") (simp_all add: not_a_string_def)
  moreover from h have "field a ''environment'' = JUndefined" "field a ''context'' = JUndefined"
    by (simp_all add: field_def)
  ultimately show "fst (handleRiskClassify X (Some a) apiClient) =
          [\<lparr> call_endpoint = ''/accelerators/risk/classify'', call_method = Some ''POST'',
             call_body = JObj [(''action'', field a ''action''),
                               (''environment'', JStr ''local''),
                               (''context'', JStr ''development'')] \<rparr>]"
    by (simp add: handleRiskClassify_def on_args_def call_then_def risk_payload_def js_or_def)
next
  assume "map_of b ''action'' = None"
  then have "not_a_string (field b ''action'')"
    by (simp add: field_def not_a_string_def)
  then show "handleRiskClassify X (Some b) apiClient =
          ([], Inl (Error ''Required parameter 'action' must be a non-empty string''))"
    by (simp add: handleRiskClassify_def on_args_def throw_def required_string_def)
next
  assume "typeof (field c ''action'') \<noteq> ''string'' \<or> field c ''action'' = JStr []"
  then have "not_a_string (field c ''action'')"
    by (auto simp add: not_a_string_def)
  then show "handleRiskClassify X (Some c) apiClient =
          ([], Inl (Error ''Required parameter 'action' must be a non-empty string''))"
    by (simp add: handleRiskClassify_def on_args_def throw_def required_string_def)
next
  show "handleRiskClassify X None apiClient =
          ([], Inl (Error ''Cannot read properties of undefined (reading 'action')''))"
    by (simp add: handleRiskClassify_def on_args_def throw_def cannot_read_def)
qed

theorem risk_classify_defaults_witness:
  "fst (handleRiskClassify no_externals (Some args_action_only) client_null) =
          [\<lparr> call_endpoint = ''/accelerators/risk/classify'', call_method = Some ''POST'',
             call_body = JObj [(''action'', JStr ''rm -rf /tmp/cache''),
                               (''environment'', JStr ''local''),
                               (''context'', JStr ''development'')] \<rparr>]
   \<and> handleRiskClassify no_externals (Some []) client_null =
          ([], Inl (Error ''Required parameter 'action' must be a non-empty string''))
   \<and> handleRiskClassify no_externals (Some args_action_number) client_null =
          ([], Inl (Error ''Required parameter 'action' must be a non-empty string''))
   \<and> fst (handleRiskClassify no_externals (Some args_action_staging) client_null) =
          [\<lparr> call_endpoint = ''/accelerators/risk/classify'', call_method = Some ''POST'',
             call_body = JObj [(''action'', JStr ''rm -rf /tmp/cache''),
                               (''environment'', JStr ''staging''),
                               (''context'', JStr ''production'')] \<rparr>]"
proof -
  note t1 = risk_classify_defaults [of args_action_only no_externals client_null "[]"
      args_action_number]
  note t2 = risk_classify_defaults [of args_action_staging no_externals client_null "[]"
      args_action_number]
  have a: "typeof (field args_action_only ''action'') = ''string''
      \<and> field args_action_only ''action'' \<noteq> JStr []
      \<and> map_of args_action_only ''environment'' = None
      \<and> map_of args_action_only ''context'' = None"
    by (simp add: args_action_only_def field_def)
  have b: "map_of [] ''action'' = (None :: js option)" by simp
  have c: "typeof (field args_action_number ''action'') \<noteq> ''string''
      \<or> field args_action_number ''action'' = JStr []"
    by (simp add: args_action_number_def field_def)
  have d: "typeof (field args_action_staging ''action'') = ''string''
      \<and> field args_action_staging ''action'' \<noteq> JStr []"
    by (simp add: args_action_staging_def field_def)
  from t1 a have 1: "fst (handleRiskClassify no_externals (Some args_action_only) client_null) =
          [\<lparr> call_endpoint = ''/accelerators/risk/classify'', call_method = Some ''POST'',
             call_body = JObj [(''action'', field args_action_only ''action''),
                               (''environment'', JStr ''local''),
                               (''context'', JStr ''development'')] \<rparr>]"
    by blast
  from t1 b have 2: "handleRiskClassify no_externals (Some []) client_null =
          ([], Inl (Error ''Required parameter 'action' must be a non-empty string''))"
    by blast
  from t1 c have 3: "handleRiskClassify no_externals (Some args_action_number) client_null =
          ([], Inl (Error ''Required parameter 'action' must be a non-empty string''))"
    by blast
  from t2 d have 4: "fst (handleRiskClassify no_externals (Some args_action_staging) client_null) =
          [\<lparr> call_endpoint = ''/accelerators/risk/classify'', call_method = Some ''POST'',
             call_body =
               JObj [(''action'', field args_action_staging ''action''),
                     (''environment'', if truthy (field args_action_staging ''environment'')
                                       then field args_action_staging ''environment''
                                       else JStr ''local''),
                     (''context'', if truthy (field args_action_staging ''context'')
                                   then field args_action_staging ''context''
                                   else JStr ''development'')] \<rparr>]"
    by blast
  from 1 2 3 4 show ?thesis
    by (simp add: args_action_only_def args_action_staging_def field_def)
qed

lemma absent_not_a_string: "map_of a k = None \<Longrightarrow> not_a_string (field a k)"
  by (simp add: field_def not_a_string_def)

text \<open>
  The handlers of the second generation do check: with the first of their required
  fields absent they throw the required-parameter error and call nothing.
\<close>

lemma siblings_check_required:
  shows "map_of a ''action'' = None \<Longrightarrow>
           handleRiskClassify X (Some a) apiClient = ([], Inl (Error (required_string ''action'')))"
    and "map_of a ''task_description'' = None \<Longrightarrow>
           handleTaskRouting X (Some a) apiClient
             = ([], Inl (Error (required_string ''task_description'')))"
    and "map_of a ''error_message'' = None \<Longrightarrow>
           handleAutoRecovery X (Some a) apiClient
             = ([], Inl (Error (required_string ''error_message'')))"
    and "map_of a ''operation_id'' = None \<Longrightarrow>
           handleResilienceExecute X (Some a) apiClient
             = ([], Inl (Error (required_string ''operation_id'')))"
    and "map_of a ''operation'' = None \<Longrightarrow>
           handleAgentMemory X (Some a) apiClient = ([], Inl (Error (required_string ''operation'')))"
    and "map_of a ''agent_id'' = None \<Longrightarrow>
           handleAgentTask X (Some a) apiClient = ([], Inl (Error (required_string ''agent_id'')))"
    and "map_of a ''file_path'' = None \<Longrightarrow>
           handleFileLock X (Some a) apiClient = ([], Inl (Error (required_string ''file_path'')))"
  by (simp_all add: absent_not_a_string on_args_def throw_def handleRiskClassify_def
      handleTaskRouting_def handleAutoRecovery_def handleResilienceExecute_def
      handleAgentMemory_def handleAgentTask_def handleFileLock_def)

text \<open>
  C2. Every handler is claimed to fail, before any remote call, when a field that
  its input shape declares required is absent. The shape of \<open>s2t_embed\<close> declares
  \<open>text\<close> required; \<open>handleEmbed\<close> given a bag without it makes the call all the
  same, with \<open>text\<close> undefined and the defaults filled in, and when the remote
  service answers with a well-formed response it returns without any error.
\<close>

theorem handleEmbed_missing_text:
  "fst (handleEmbed X (Some []) apiClient) =
     [\<lparr> call_endpoint = ''/embed'', call_method = Some ''POST'',
        call_body = JObj [(''text'', JUndefined),
                          (''model'', JStr ''amazon.titan-embed-text-v2:0''),
                          (''chunk_size'', JNum 512),
                          (''chunk_overlap'', JNum 50)] \<rparr>]
   \<and> \<not> isl (snd (handleEmbed X (Some []) client_150))"
  by (simp add: handleEmbed_def on_args_def call_then_def embed_payload_def field_def js_or_def
      client_150_def response_150_def chunk_150_def embed_output_def read_def embed_chunk_def)

section \<open>The embedding operation\<close>

lemma field_delete: "field (AList.delete k a) k' = (if k = k' then JUndefined else field a k')"
  by (simp add: field_def delete_conv')

lemma js_or_delete:
  "\<not> truthy (field a k) \<Longrightarrow> js_or (field (AList.delete k a) k') d = js_or (field a k') d"
  by (cases "k = k'") (simp_all add: field_delete js_or_def)

lemma embed_payload_delete:
  assumes "\<not> truthy (field a k)" and "k \<noteq> ''text''"
  shows "embed_payload (AList.delete k a) = embed_payload a"
  using assms by (simp add: embed_payload_def js_or_delete) (simp add: field_delete)

text \<open>
  C10. In \<open>handleEmbed\<close> the defaults are applied by truthiness: a \<open>chunk_overlap\<close>
  of 0 is replaced by 50 in the forwarded payload, which is the payload of the
  same call with the field omitted; and whenever \<open>chunk_overlap\<close>, \<open>chunk_size\<close> or
  \<open>model\<close> is falsy the handler behaves as if the field had been omitted, the
  forwarded value being the default (50, 512, the v2 model). A truthy value is
  forwarded as the caller gave it. The payload that is forwarded is the one
  described: the body of the one call that the handler makes.
\<close>

theorem embed_defaults_by_truthiness:
  "(field a ''chunk_overlap'' = JNum 0
      \<longrightarrow> map call_body (fst (handleEmbed X (Some a) apiClient))
            = [embed_payload (AList.delete ''chunk_overlap'' a)]
        \<and> read_opt (embed_payload a) ''chunk_overlap'' = JNum 50)
   \<and> (\<not> truthy (field a ''chunk_overlap'')
      \<longrightarrow> handleEmbed X (Some a) apiClient
            = handleEmbed X (Some (AList.delete ''chunk_overlap'' a)) apiClient
        \<and> read_opt (embed_payload a) ''chunk_overlap'' = JNum 50)
   \<and> (\<not> truthy (field a ''chunk_size'')
      \<longrightarrow> handleEmbed X (Some a) apiClient
            = handleEmbed X (Some (AList.delete ''chunk_size'' a)) apiClient
        \<and> read_opt (embed_payload a) ''chunk_size'' = JNum 512)
   \<and> (\<not> truthy (field a ''model'')
      \<longrightarrow> handleEmbed X (Some a) apiClient
            = handleEmbed X (Some (AList.delete ''model'' a)) apiClient
        \<and> read_opt (embed_payload a) ''model'' = JStr ''amazon.titan-embed-text-v2:0'')
   \<and> map call_body (fst (handleEmbed X (Some a) apiClient))
       = [JObj [(''text'', field a ''text''),
                (''model'', if truthy (field a ''model'') then field a ''model''
                            else JStr ''amazon.titan-embed-text-v2:0''),
                (''chunk_size'', if truthy (field a ''chunk_size'') then field a ''chunk_size''
                                 else JNum 512),
                (''chunk_overlap'', if truthy (field a ''chunk_overlap'')
                                    then field a ''chunk_overlap'' else JNum 50)]]
   \<and> (truthy (field a ''chunk_overlap'')
      \<longrightarrow> read_opt (embed_payload a) ''chunk_overlap'' = field a ''chunk_overlap'')
   \<and> (truthy (field a ''chunk_size'')
      \<longrightarrow> read_opt (embed_payload a) ''chunk_size'' = field a ''chunk_size'')
   \<and> (truthy (field a ''model'')
      \<longrightarrow> read_opt (embed_payload a) ''model'' = field a ''model'')
   \<and> map call_body (fst (handleEmbed X (Some a) apiClient)) = [embed_payload a]"
proof -
  have same: "handleEmbed X (Some a) apiClient = handleEmbed X (Some (AList.delete k a)) apiClient"
    if "\<not> truthy (field a k)" and "k \<noteq> ''text''" for k
    using embed_payload_delete [OF that] by (simp add: handleEmbed_def on_args_def)
  have calls: "map call_body (fst (handleEmbed X (Some a) apiClient)) = [embed_payload a]"
    by (simp add: handleEmbed_def on_args_def call_then_def)
  have overlap: "read_opt (embed_payload a) ''chunk_overlap'' = JNum 50"
    if "\<not> truthy (field a ''chunk_overlap'')"
    using that by (simp add: embed_payload_def read_opt_def field_def js_or_def)
  have size: "read_opt (embed_payload a) ''chunk_size'' = JNum 512"
    if "\<not> truthy (field a ''chunk_size'')"
    using that by (simp add: embed_payload_def read_opt_def field_def js_or_def)
  have model: "read_opt (embed_payload a) ''model'' = JStr ''amazon.titan-embed-text-v2:0''"
    if "\<not> truthy (field a ''model'')"
    using that by (simp add: embed_payload_def read_opt_def field_def js_or_def)
  have zero: "map call_body (fst (handleEmbed X (Some a) apiClient))
            = [embed_payload (AList.delete ''chunk_overlap'' a)]
        \<and> read_opt (embed_payload a) ''chunk_overlap'' = JNum 50"
    if "field a ''chunk_overlap'' = JNum 0"
  proof -
    from that have f: "\<not> truthy (field a ''chunk_overlap'')" by simp
    show ?thesis using calls overlap [OF f] embed_payload_delete [OF f] by simp
  qed
  have "''chunk_overlap'' \<noteq> ''text''" "''chunk_size'' \<noteq> ''text''" "''model'' \<noteq> ''text''"
    by simp_all
  note ne = this
  have full: "map call_body (fst (handleEmbed X (Some a) apiClient))
       = [JObj [(''text'', field a ''text''),
                (''model'', if truthy (field a ''model'') then field a ''model''
                            else JStr ''amazon.titan-embed-text-v2:0''),
                (''chunk_size'', if truthy (field a ''chunk_size'') then field a ''chunk_size''
                                 else JNum 512),
                (''chunk_overlap'', if truthy (field a ''chunk_overlap'')
                                    then field a ''chunk_overlap'' else JNum 50)]]"
    using calls by (simp add: embed_payload_def js_or_def)
  have kept_overlap: "read_opt (embed_payload a) ''chunk_overlap'' = field a ''chunk_overlap''"
    if "truthy (field a ''chunk_overlap'')"
    using that by (simp add: embed_payload_def read_opt_def field_def js_or_def)
  have kept_size: "read_opt (embed_payload a) ''chunk_size'' = field a ''chunk_size''"
    if "truthy (field a ''chunk_size'')"
    using that by (simp add: embed_payload_def read_opt_def field_def js_or_def)
  have kept_model: "read_opt (embed_payload a) ''model'' = field a ''model''"
    if "truthy (field a ''model'')"
    using that by (simp add: embed_payload_def read_opt_def field_def js_or_def)
  show ?thesis
  proof (intro conjI impI)
    assume "field a ''chunk_overlap'' = JNum 0"
    from zero [OF this] show "map call_body (fst (handleEmbed X (Some a) apiClient))
            = [embed_payload (AList.delete ''chunk_overlap'' a)]"
      and "read_opt (embed_payload a) ''chunk_overlap'' = JNum 50" by blast+
  next
    assume h: "\<not> truthy (field a ''chunk_overlap'')"
    show "handleEmbed X (Some a) apiClient
            = handleEmbed X (Some (AList.delete ''chunk_overlap'' a)) apiClient"
      by (rule same [OF h ne(1)])
    show "read_opt (embed_payload a) ''chunk_overlap'' = JNum 50" by (rule overlap [OF h])
  next
    assume h: "\<not> truthy (field a ''chunk_size'')"
    show "handleEmbed X (Some a) apiClient
            = handleEmbed X (Some (AList.delete ''chunk_size'' a)) apiClient"
      by (rule same [OF h ne(2)])
    show "read_opt (embed_payload a) ''chunk_size'' = JNum 512" by (rule size [OF h])
  next
    assume h: "\<not> truthy (field a ''model'')"
    show "handleEmbed X (Some a) apiClient
            = handleEmbed X (Some (AList.delete ''model'' a)) apiClient"
      by (rule same [OF h ne(3)])
    show "read_opt (embed_payload a) ''model'' = JStr ''amazon.titan-embed-text-v2:0''"
      by (rule model [OF h])
  next
    show "map call_body (fst (handleEmbed X (Some a) apiClient))
       = [JObj [(''text'', field a ''text''),
                (''model'', if truthy (field a ''model'') then field a ''model''
                            else JStr ''amazon.titan-embed-text-v2:0''),
                (''chunk_size'', if truthy (field a ''chunk_size'') then field a ''chunk_size''
                                 else JNum 512),
                (''chunk_overlap'', if truthy (field a ''chunk_overlap'')
                                    then field a ''chunk_overlap'' else JNum 50)]]"
      by (rule full)
  next
    assume "truthy (field a ''chunk_overlap'')"
    then show "read_opt (embed_payload a) ''chunk_overlap'' = field a ''chunk_overlap''"
      by (rule kept_overlap)
  next
    assume "truthy (field a ''chunk_size'')"
    then show "read_opt (embed_payload a) ''chunk_size'' = field a ''chunk_size''"
      by (rule kept_size)
  next
    assume "truthy (field a ''model'')"
    then show "read_opt (embed_payload a) ''model'' = field a ''model''"
      by (rule kept_model)
  next
    show "map call_body (fst (handleEmbed X (Some a) apiClient)) = [embed_payload a]"
      by (rule calls)
  qed
qed


theorem embed_defaults_by_truthiness_witness:
  "map call_body (fst (handleEmbed no_externals (Some args_all_falsy) client_null))
     = [JObj [(''text'', JStr ''hello''),
              (''model'', JStr ''amazon.titan-embed-text-v2:0''),
              (''chunk_size'', JNum 512),
              (''chunk_overlap'', JNum 50)]]
   \<and> handleEmbed no_externals (Some args_all_falsy) client_null
       = handleEmbed no_externals (Some [(''text'', JStr ''hello'')]) client_null
   \<and> read_opt (embed_payload args_custom) ''chunk_overlap'' = JNum 25
   \<and> read_opt (embed_payload args_custom) ''chunk_size'' = JNum 256
   \<and> read_opt (embed_payload args_custom) ''model'' = JStr ''amazon.titan-embed-text-v1''
   \<and> map call_body (fst (handleEmbed no_externals (Some args_custom) client_null))
       = [JObj [(''text'', JStr ''hello''),
                (''model'', JStr ''amazon.titan-embed-text-v1''),
                (''chunk_size'', JNum 256),
                (''chunk_overlap'', JNum 25)]]"
proof -
  have f: "field args_all_falsy ''chunk_overlap'' = JNum 0"
    "\<not> truthy (field args_all_falsy ''chunk_overlap'')"
    "\<not> truthy (field args_all_falsy ''chunk_size'')"
    "\<not> truthy (field args_all_falsy ''model'')"
    by (simp_all add: args_all_falsy_def field_def)
  have g: "truthy (field args_custom ''chunk_overlap'')"
    "truthy (field args_custom ''chunk_size'')"
    "truthy (field args_custom ''model'')"
    by (simp_all add: args_custom_def field_def)
  have p: "embed_payload [(''text'', JStr ''hello'')] = embed_payload args_all_falsy"
    by (simp add: embed_payload_def args_all_falsy_def field_def js_or_def)
  note falsy = embed_defaults_by_truthiness [of args_all_falsy no_externals client_null]
  note custom = embed_defaults_by_truthiness [of args_custom no_externals client_null]
  from falsy f
  have "map call_body (fst (handleEmbed no_externals (Some args_all_falsy) client_null))
          = [embed_payload (AList.delete ''chunk_overlap'' args_all_falsy)]"
    by blast
  then have 1: "map call_body (fst (handleEmbed no_externals (Some args_all_falsy) client_null))
     = [JObj [(''text'', JStr ''hello''),
              (''model'', JStr ''amazon.titan-embed-text-v2:0''),
              (''chunk_size'', JNum 512),
              (''chunk_overlap'', JNum 50)]]"
    by (simp add: embed_payload_def args_all_falsy_def field_def js_or_def)
  have 2: "handleEmbed no_externals (Some args_all_falsy) client_null
       = handleEmbed no_externals (Some [(''text'', JStr ''hello'')]) client_null"
    using p by (simp add: handleEmbed_def on_args_def)
  from custom g
  have k: "read_opt (embed_payload args_custom) ''chunk_overlap'' = field args_custom ''chunk_overlap''"
    "read_opt (embed_payload args_custom) ''chunk_size'' = field args_custom ''chunk_size''"
    "read_opt (embed_payload args_custom) ''model'' = field args_custom ''model''"
    by blast+
  from custom
  have c: "map call_body (fst (handleEmbed no_externals (Some args_custom) client_null))
       = [embed_payload args_custom]"
    by blast
  have 3: "read_opt (embed_payload args_custom) ''chunk_overlap'' = JNum 25"
    and 4: "read_opt (embed_payload args_custom) ''chunk_size'' = JNum 256"
    and 5: "read_opt (embed_payload args_custom) ''model'' = JStr ''amazon.titan-embed-text-v1''"
    using k by (simp_all add: args_custom_def field_def)
  have 6: "map call_body (fst (handleEmbed no_externals (Some args_custom) client_null))
       = [JObj [(''text'', JStr ''hello''),
                (''model'', JStr ''amazon.titan-embed-text-v1''),
                (''chunk_size'', JNum 256),
                (''chunk_overlap'', JNum 25)]]"
    using c by (simp add: embed_payload_def args_custom_def field_def js_or_def)
  from 1 2 3 4 5 6 show ?thesis by simp
qed





lemma text_preview_length: "length t > 100 \<Longrightarrow> length (text_preview t) = 103"
  by (simp add: text_preview_def)



section \<open>Cross-origin policy\<close>

text \<open>
  The claim C7 says that a request whose origin is declared and not allowed does
  not reach session creation. The middleware only withholds the
  \<open>Access-Control-Allow-Origin\<close> header and calls \<open>next()\<close>: the initialize request
  below comes from an origin that is not allowed, and its session is stored.
\<close>

theorem disallowed_origin_counterexample:
  "\<not> isOriginAllowed cfg_allowlist (origin init_from_evil)
   \<and> streamableTransports (snd (handle_http cfg_allowlist init_from_evil sdk_issues_session_1 initial_server))
       = [(''session-1'', 0)]"
  by (simp add: cfg_allowlist_def init_from_evil_def ALLOWED_ORIGINS_def
      endsWith_def handle_http_def express_json_def route_def post_mcp_def handleRequest_def
      sdk_issues_session_1_def initial_server_def onsessioninitialized_def Let_def)

lemma route_origin: "route (req\<lparr> origin := x \<rparr>) sdk s = route req sdk s"
  by (simp add: route_def post_mcp_def get_mcp_def delete_mcp_def post_messages_def Let_def)

lemma express_json_origin: "express_json (req\<lparr> origin := x \<rparr>) sdk s = express_json req sdk s"
  by (simp add: express_json_def route_origin split: option.splits)

text \<open>
  C7, amended. Every inbound request is checked against the configured allow-list
  before any session logic runs: an origin is allowed when none is declared, when
  no allow-list is configured, when it is on the list, or when its host is
  \<open>s2tconsulting.com\<close> or a subdomain of it. The check decides whether the response
  carries \<open>Access-Control-Allow-Origin\<close>, and nothing else: a request other than
  \<open>OPTIONS\<close> goes on to the body parser and, when its body is accepted, to its
  route, and both do with it what they would do whatever its origin. With no
  allow-list configured every origin is allowed.
\<close>

theorem origin_policy:
  "(isOriginAllowed cfg orig \<longleftrightarrow>
      (case orig of
         None \<Rightarrow> True
       | Some v \<Rightarrow>
           v = []
           \<or> ALLOWED_ORIGINS (S2T_CORS_ORIGINS cfg) = []
           \<or> v \<in> set (ALLOWED_ORIGINS (S2T_CORS_ORIGINS cfg))
           \<or> (\<exists>h. url_hostname cfg v = Some h
                  \<and> (h = ''s2tconsulting.com'' \<or> endsWith h ''.s2tconsulting.com''))))
   \<and> allow_origin (fst (handle_http cfg req sdk s))
       = (if isOriginAllowed cfg (origin req) then Some (origin_or_star (origin req)) else None)
   \<and> (verb req \<noteq> OPTIONS \<longrightarrow>
         snd (handle_http cfg req sdk s) = snd (express_json req sdk s)
       \<and> (status_code (fst (handle_http cfg req sdk s)), resp_body (fst (handle_http cfg req sdk s)))
           = fst (express_json req sdk s)
       \<and> express_json (req\<lparr> origin := x \<rparr>) sdk s = express_json req sdk s)
   \<and> (verb req \<noteq> OPTIONS \<and> body_error req = None \<longrightarrow>
         snd (handle_http cfg req sdk s) = snd (route req sdk s)
       \<and> (status_code (fst (handle_http cfg req sdk s)), resp_body (fst (handle_http cfg req sdk s)))
           = fst (route req sdk s)
       \<and> route (req\<lparr> origin := x \<rparr>) sdk s = route req sdk s)
   \<and> (ALLOWED_ORIGINS (S2T_CORS_ORIGINS cfg) = [] \<longrightarrow> isOriginAllowed cfg orig)"
proof (intro conjI impI)
  show "isOriginAllowed cfg orig \<longleftrightarrow>
      (case orig of
         None \<Rightarrow> True
       | Some v \<Rightarrow>
           v = []
           \<or> ALLOWED_ORIGINS (S2T_CORS_ORIGINS cfg) = []
           \<or> v \<in> set (ALLOWED_ORIGINS (S2T_CORS_ORIGINS cfg))
           \<or> (\<exists>h. url_hostname cfg v = Some h
                  \<and> (h = ''s2tconsulting.com'' \<or> endsWith h ''.s2tconsulting.com'')))"
    by (cases orig) (simp_all split: option.splits)
  show "allow_origin (fst (handle_http cfg req sdk s))
       = (if isOriginAllowed cfg (origin req) then Some (origin_or_star (origin req)) else None)"
    by (simp add: handle_http_def Let_def split: prod.splits)
  show "express_json (req\<lparr> origin := x \<rparr>) sdk s = express_json req sdk s"
    by (rule express_json_origin)
  show "route (req\<lparr> origin := x \<rparr>) sdk s = route req sdk s"
    by (rule route_origin)
next
  assume "verb req \<noteq> OPTIONS"
  then show "snd (handle_http cfg req sdk s) = snd (express_json req sdk s)"
    and "(status_code (fst (handle_http cfg req sdk s)), resp_body (fst (handle_http cfg req sdk s)))
           = fst (express_json req sdk s)"
    by (simp_all add: handle_http_def Let_def split: prod.splits)
next
  assume "verb req \<noteq> OPTIONS \<and> body_error req = None"
  then show "snd (handle_http cfg req sdk s) = snd (route req sdk s)"
    and "(status_code (fst (handle_http cfg req sdk s)), resp_body (fst (handle_http cfg req sdk s)))
           = fst (route req sdk s)"
    by (simp_all add: handle_http_def express_json_def Let_def split: prod.splits)
next
  assume "ALLOWED_ORIGINS (S2T_CORS_ORIGINS cfg) = []"
  then show "isOriginAllowed cfg orig" by (cases orig) simp_all
qed

theorem origin_policy_witness:
  "snd (handle_http cfg_allowlist init_from_evil sdk_issues_session_1 initial_server)
     = snd (route init_from_evil sdk_issues_session_1 initial_server)
   \<and> isOriginAllowed \<lparr> S2T_CORS_ORIGINS = None, url_hostname = url_hostname cfg_allowlist \<rparr>
        (Some ''https://evil.example'')"
proof -
  have 1: "verb init_from_evil \<noteq> OPTIONS \<and> body_error init_from_evil = None"
    by (simp add: init_from_evil_def)
  have 2: "ALLOWED_ORIGINS (S2T_CORS_ORIGINS
             \<lparr> S2T_CORS_ORIGINS = None, url_hostname = url_hostname cfg_allowlist \<rparr>) = []"
    by (simp add: ALLOWED_ORIGINS_def)
  from origin_policy [of cfg_allowlist "None" init_from_evil sdk_issues_session_1 initial_server None] 1
  have a: "snd (handle_http cfg_allowlist init_from_evil sdk_issues_session_1 initial_server)
     = snd (route init_from_evil sdk_issues_session_1 initial_server)"
    by blast
  from origin_policy [of "\<lparr> S2T_CORS_ORIGINS = None, url_hostname = url_hostname cfg_allowlist \<rparr>"
      "Some ''https://evil.example''" init_from_evil sdk_issues_session_1 initial_server None] 2
  have b: "isOriginAllowed \<lparr> S2T_CORS_ORIGINS = None, url_hostname = url_hostname cfg_allowlist \<rparr>
        (Some ''https://evil.example'')"
    by blast
  from a b show ?thesis by simp
qed

section \<open>Session lifecycle\<close>

lemma has_keys: "has store k \<longleftrightarrow> k \<in> fst ` set store"
  by (simp add: has_def map_of_eq_None_iff)

lemma has_update: "has (AList.update k v store) t \<longleftrightarrow> k = t \<or> has store t"
  by (auto simp add: has_def update_conv')

lemma has_delete: "has (AList.delete k store) t \<longleftrightarrow> k \<noteq> t \<and> has store t"
  by (auto simp add: has_def delete_conv')

lemma has_onclose: "has (onclose tr store) t \<Longrightarrow> has store t"
  by (auto simp add: onclose_def has_delete split: option.splits if_splits)

lemma run_callbacks_absent:
  "\<not> has store t \<Longrightarrow> SessionInitialized t \<notin> set cs \<Longrightarrow> \<not> has (run_callbacks tr cs store) t"
proof (induction cs arbitrary: store)
  case Nil
  then show ?case by simp
next
  case (Cons c cs)
  show ?case
  proof (cases c)
    case (SessionInitialized sid)
    with Cons.prems have "sid \<noteq> t" by auto
    with Cons.prems have "\<not> has (onsessioninitialized tr sid store) t"
      by (simp add: onsessioninitialized_def has_update)
    with Cons SessionInitialized show ?thesis by simp
  next
    case Close
    from Cons.prems have "\<not> has (onclose tr store) t"
      using has_onclose by blast
    with Cons Close show ?thesis by simp
  qed
qed

lemma handleRequest_absent:
  "\<not> has (streamableTransports s) t \<Longrightarrow> SessionInitialized t \<notin> set (callbacks sdk)
   \<Longrightarrow> \<not> has (streamableTransports (snd (handleRequest tr sdk s))) t"
  by (simp add: handleRequest_def run_callbacks_absent)

lemma route_absent:
  assumes "\<not> has (streamableTransports s) t" and "SessionInitialized t \<notin> set (callbacks sdk)"
  shows "\<not> has (streamableTransports (snd (route req sdk s))) t"
proof -
  have post: "\<not> has (streamableTransports (snd (post_mcp req sdk s))) t"
    using assms
    by (simp add: post_mcp_def handleRequest_def run_callbacks_absent split: option.splits)
  have get: "\<not> has (streamableTransports (snd (get_mcp req sdk s))) t"
    using assms
    by (simp add: get_mcp_def handleRequest_def run_callbacks_absent split: option.splits)
  have del: "\<not> has (streamableTransports (snd (delete_mcp req sdk s))) t"
    using assms
    by (simp add: delete_mcp_def handleRequest_def run_callbacks_absent has_delete
        split: option.splits)
  have sse: "\<not> has (streamableTransports (snd (get_sse sdk s))) t"
    using assms by (simp add: get_sse_def)
  have msg: "\<not> has (streamableTransports (snd (post_messages req s))) t"
    using assms by (simp add: post_messages_def split: option.splits)
  have hl: "\<not> has (streamableTransports (snd (health s))) t"
    using assms by (simp add: health_def)
  show ?thesis
    unfolding route_def using post get del sse msg hl assms(1) by simp
qed

lemma express_json_absent:
  assumes "\<not> has (streamableTransports s) t" and "SessionInitialized t \<notin> set (callbacks sdk)"
  shows "\<not> has (streamableTransports (snd (express_json req sdk s))) t"
  using route_absent [OF assms, of req] assms(1)
  by (simp add: express_json_def split: option.splits)

lemma handle_http_state:
  "snd (handle_http cfg req sdk s)
     = (if verb req = OPTIONS then s else snd (express_json req sdk s))"
  by (simp add: handle_http_def Let_def split: prod.splits)

lemma step_absent:
  assumes "\<not> has (streamableTransports s) t" and "\<not> issues t ev"
  shows "\<not> has (streamableTransports (step cfg s ev)) t"
proof (cases ev)
  case (Http req sdk)
  with assms have "SessionInitialized t \<notin> set (callbacks sdk)" by simp
  from express_json_absent [OF assms(1) this, of req] assms(1) Http show ?thesis
    by (simp add: handle_http_state)
next
  case (SseClose c)
  with assms show ?thesis by simp
next
  case (StreamClose tr)
  with assms has_onclose show ?thesis by auto
qed

lemma run_absent:
  "\<not> has (streamableTransports s) t \<Longrightarrow> list_all (\<lambda>ev. \<not> issues t ev) evs
   \<Longrightarrow> \<not> has (streamableTransports (run cfg s evs)) t"
proof (induction evs arbitrary: s)
  case Nil
  then show ?case by (simp add: run_def)
next
  case (Cons ev evs)
  from Cons.prems have "\<not> has (streamableTransports (step cfg s ev)) t"
    by (simp add: step_absent)
  with Cons show ?case by (simp add: run_def)
qed

text \<open>
  How a session comes to be stored: an initialize request without a token, during
  which the library announces the new session id \<open>t\<close>.
\<close>

lemma initialize_creates:
  assumes "verb req = POST" and "path req = ''/mcp''" and "body_error req = None"
    and "\<not> given (mcp_session_id req)" and "initialize req"
    and "callbacks sdk = [SessionInitialized t]"
  shows "map_of (streamableTransports (step cfg s (Http req sdk))) t = Some (next_transport s)"
proof -
  from assms(4) have "stored (mcp_session_id req) (streamableTransports s) = None"
    by (cases "mcp_session_id req") simp_all
  with assms show ?thesis
    by (simp add: handle_http_def express_json_def route_def post_mcp_def Let_def
        handleRequest_def onsessioninitialized_def update_conv')
qed

lemma delete_removes:
  assumes "t \<noteq> []" and "has (streamableTransports s) t"
    and "verb del = DELETE" and "path del = ''/mcp''" and "mcp_session_id del = Some t"
    and "body_error del = None" and "completes sdk"
  shows "\<not> has (streamableTransports (step cfg s (Http del sdk))) t"
proof -
  from assms(2) obtain tr where "map_of (streamableTransports s) t = Some tr"
    by (auto simp add: has_def)
  with assms(1,3-7) show ?thesis
    by (simp add: handle_http_def express_json_def route_def delete_mcp_def Let_def
        handleRequest_def has_delete)
qed

lemma unknown_token_rejected:
  assumes "t \<noteq> []" and "\<not> has (streamableTransports s) t"
    and "path req = ''/mcp''" and "verb req = POST \<or> verb req = GET"
    and "mcp_session_id req = Some t"
  shows "route req sdk s =
           ((Some 400, JsonRpcError (- 32000)
               (if verb req = POST
                then ''Bad request: no valid session. Send an initialize request first.''
                else ''Bad request: invalid or missing session ID.'')), s)"
  using assms
  by (auto simp add: route_def post_mcp_def get_mcp_def has_def no_valid_session_def
      invalid_session_def)

text \<open>
  The claim C5 says that every later \<open>POST /mcp\<close> bearing a terminated token is
  answered with the JSON-RPC error -32000. The body parser runs before the routes:
  a request whose body it does not accept is answered by Express's error handler,
  whatever token it bears. After the life of \<open>session-1\<close> below, a \<open>POST /mcp\<close>
  bearing that token with a body that is not JSON gets the error page.
\<close>

theorem stale_token_unparsed_counterexample:
  "\<not> has (streamableTransports (run cfg_allowlist initial_server lifecycle)) ''session-1''
   \<and> verb post_session_1_unparsed = POST
   \<and> path post_session_1_unparsed = ''/mcp''
   \<and> mcp_session_id post_session_1_unparsed = Some ''session-1''
   \<and> status_code (fst (handle_http cfg_allowlist post_session_1_unparsed sdk_closes
                        (run cfg_allowlist initial_server lifecycle))) = Some 400
   \<and> resp_body (fst (handle_http cfg_allowlist post_session_1_unparsed sdk_closes
                        (run cfg_allowlist initial_server lifecycle))) = ErrorPage"
proof -
  have s': "run cfg_allowlist initial_server lifecycle
      = \<lparr> streamableTransports = [(''session-2'', 1)], sseTransports = [], next_transport = 2 \<rparr>"
    by (simp add: run_def lifecycle_def handle_http_def express_json_def route_def post_mcp_def
        delete_mcp_def Let_def init_from_evil_def delete_session_1_def handleRequest_def
        sdk_issues_session_1_def sdk_issues_session_2_def sdk_closes_def initial_server_def
        onsessioninitialized_def onclose_def)
  show ?thesis
    unfolding s'
    by (simp add: has_def post_session_1_unparsed_def handle_http_def express_json_def Let_def)
qed

text \<open>
  C5, amended. Let \<open>t\<close> be the token of a session in the streamable store. After the
  termination request \<open>DELETE /mcp\<close> bearing \<open>t\<close> has been handled, \<open>t\<close> is no longer
  in the store, and stays out of it whatever happens next, as long as the library
  does not issue the same token again. Any later \<open>POST /mcp\<close> or \<open>GET /mcp\<close> bearing
  \<open>t\<close> leaves the server as it is and gets the very response given to the same
  request bearing a token \<open>u\<close> that is not in the store: HTTP 400 with JSON-RPC
  error code -32000 when the body parser accepts the request, and the body
  parser's error response otherwise.
\<close>

theorem stale_token_rejected:
  assumes "t \<noteq> []" and "has (streamableTransports s) t"
    and "verb del = DELETE" and "path del = ''/mcp''" and "mcp_session_id del = Some t"
    and "body_error del = None" and "completes sdk"
    and "list_all (\<lambda>ev. \<not> issues t ev) evs"
    and "s' = run cfg (step cfg s (Http del sdk)) evs"
    and "u \<noteq> []" and "\<not> has (streamableTransports s') u"
    and "path req = ''/mcp''" and "verb req = POST \<or> verb req = GET"
    and "mcp_session_id req = Some t"
  shows "\<not> has (streamableTransports (step cfg s (Http del sdk))) t
       \<and> \<not> has (streamableTransports s') t
       \<and> snd (handle_http cfg req sdk' s') = s'
       \<and> handle_http cfg (req\<lparr> mcp_session_id := Some u \<rparr>) sdk' s' = handle_http cfg req sdk' s'
       \<and> (body_error req = None \<longrightarrow>
             status_code (fst (handle_http cfg req sdk' s')) = Some 400
           \<and> resp_body (fst (handle_http cfg req sdk' s'))
               = JsonRpcError (- 32000)
                   (if verb req = POST
                    then ''Bad request: no valid session. Send an initialize request first.''
                    else ''Bad request: invalid or missing session ID.''))
       \<and> (body_error req \<noteq> None \<longrightarrow>
             status_code (fst (handle_http cfg req sdk' s')) = body_error req
           \<and> resp_body (fst (handle_http cfg req sdk' s')) = ErrorPage)"
proof -
  have gone: "\<not> has (streamableTransports (step cfg s (Http del sdk))) t"
    using assms(1-7) by (rule delete_removes)
  then have stale: "\<not> has (streamableTransports s') t"
    using assms(8,9) by (simp add: run_absent)
  have no_opt: "verb req \<noteq> OPTIONS"
    using assms(13) by auto
  have rt: "route req sdk' s' =
           ((Some 400, JsonRpcError (- 32000)
               (if verb req = POST
                then ''Bad request: no valid session. Send an initialize request first.''
                else ''Bad request: invalid or missing session ID.'')), s')"
    using assms(1) stale assms(12,13,14) by (rule unknown_token_rejected)
  have ru: "route (req\<lparr> mcp_session_id := Some u \<rparr>) sdk' s' =
           ((Some 400, JsonRpcError (- 32000)
               (if verb req = POST
                then ''Bad request: no valid session. Send an initialize request first.''
                else ''Bad request: invalid or missing session ID.'')), s')"
    using unknown_token_rejected [OF assms(10,11), of "req\<lparr> mcp_session_id := Some u \<rparr>" sdk']
      assms(12,13) by simp
  have ej: "express_json req sdk' s' =
      (case body_error req of
         Some st \<Rightarrow> ((Some st, ErrorPage), s')
       | None \<Rightarrow> ((Some 400, JsonRpcError (- 32000)
               (if verb req = POST
                then ''Bad request: no valid session. Send an initialize request first.''
                else ''Bad request: invalid or missing session ID.'')), s'))"
    using rt by (simp add: express_json_def split: option.splits)
  have eu: "express_json (req\<lparr> mcp_session_id := Some u \<rparr>) sdk' s' = express_json req sdk' s'"
    using rt ru by (simp add: express_json_def split: option.splits)
  have same: "handle_http cfg (req\<lparr> mcp_session_id := Some u \<rparr>) sdk' s' = handle_http cfg req sdk' s'"
    using eu no_opt by (simp add: handle_http_def Let_def)
  have un: "snd (handle_http cfg req sdk' s') = s'"
    using ej no_opt by (simp add: handle_http_def Let_def split: option.splits)
  have parsed: "status_code (fst (handle_http cfg req sdk' s')) = Some 400
           \<and> resp_body (fst (handle_http cfg req sdk' s'))
               = JsonRpcError (- 32000)
                   (if verb req = POST
                    then ''Bad request: no valid session. Send an initialize request first.''
                    else ''Bad request: invalid or missing session ID.'')"
    if "body_error req = None"
    using that ej no_opt by (simp add: handle_http_def Let_def)
  have unparsed: "status_code (fst (handle_http cfg req sdk' s')) = body_error req
           \<and> resp_body (fst (handle_http cfg req sdk' s')) = ErrorPage"
    if "body_error req \<noteq> None"
    using that ej no_opt by (auto simp add: handle_http_def Let_def)
  from gone stale un same parsed unparsed show ?thesis by blast
qed

theorem stale_token_rejected_witness:
  "\<not> has (streamableTransports (run cfg_allowlist initial_server lifecycle)) ''session-1''
   \<and> status_code (fst (handle_http cfg_allowlist post_session_1 sdk_closes
                        (run cfg_allowlist initial_server lifecycle))) = Some 400
   \<and> resp_body (fst (handle_http cfg_allowlist post_session_1 sdk_closes
                        (run cfg_allowlist initial_server lifecycle)))
       = JsonRpcError (- 32000)
           ''Bad request: no valid session. Send an initialize request first.''
   \<and> handle_http cfg_allowlist (post_session_1\<lparr> mcp_session_id := Some ''never-issued'' \<rparr>)
         sdk_closes (run cfg_allowlist initial_server lifecycle)
     = handle_http cfg_allowlist post_session_1 sdk_closes
         (run cfg_allowlist initial_server lifecycle)
   \<and> resp_body (fst (handle_http cfg_allowlist post_session_1_unparsed sdk_closes
                        (run cfg_allowlist initial_server lifecycle))) = ErrorPage
   \<and> handle_http cfg_allowlist (post_session_1_unparsed\<lparr> mcp_session_id := Some ''never-issued'' \<rparr>)
         sdk_closes (run cfg_allowlist initial_server lifecycle)
     = handle_http cfg_allowlist post_session_1_unparsed sdk_closes
         (run cfg_allowlist initial_server lifecycle)"
proof -
  define s where "s = step cfg_allowlist initial_server (Http init_from_evil sdk_issues_session_1)"
  have s: "s = \<lparr> streamableTransports = [(''session-1'', 0)], sseTransports = [],
                    next_transport = 1 \<rparr>"
    by (simp add: s_def handle_http_def express_json_def route_def post_mcp_def Let_def
        init_from_evil_def handleRequest_def sdk_issues_session_1_def initial_server_def
        onsessioninitialized_def)
  have r: "run cfg_allowlist initial_server lifecycle
      = run cfg_allowlist (step cfg_allowlist s (Http delete_session_1 sdk_closes))
          [Http init_from_evil sdk_issues_session_2]"
    by (simp add: run_def lifecycle_def s_def)
  have s': "run cfg_allowlist initial_server lifecycle
      = \<lparr> streamableTransports = [(''session-2'', 1)], sseTransports = [], next_transport = 2 \<rparr>"
    unfolding r s
    by (simp add: run_def handle_http_def express_json_def route_def post_mcp_def delete_mcp_def
        Let_def init_from_evil_def delete_session_1_def handleRequest_def
        sdk_issues_session_2_def sdk_closes_def onsessioninitialized_def onclose_def)
  have h1: "''session-1'' \<noteq> []" and h9: "''never-issued'' \<noteq> []" by simp_all
  have h2: "has (streamableTransports s) ''session-1''" by (simp add: s has_def)
  have h3: "verb delete_session_1 = DELETE" and h4: "path delete_session_1 = ''/mcp''"
    and h5: "mcp_session_id delete_session_1 = Some ''session-1''"
    and h5b: "body_error delete_session_1 = None"
    by (simp_all add: delete_session_1_def)
  have h6: "completes sdk_closes" by (simp add: sdk_closes_def)
  have h7: "list_all (\<lambda>ev. \<not> issues ''session-1'' ev) [Http init_from_evil sdk_issues_session_2]"
    by (simp add: sdk_issues_session_2_def)
  have h10: "\<not> has (streamableTransports (run cfg_allowlist initial_server lifecycle)) ''never-issued''"
    by (simp add: s' has_def)
  have h11: "path post_session_1 = ''/mcp''"
    and h12: "verb post_session_1 = POST \<or> verb post_session_1 = GET"
    and h13: "mcp_session_id post_session_1 = Some ''session-1''"
    and h14: "body_error post_session_1 = None" and h15: "verb post_session_1 = POST"
    by (simp_all add: post_session_1_def)
  have k11: "path post_session_1_unparsed = ''/mcp''"
    and k12: "verb post_session_1_unparsed = POST \<or> verb post_session_1_unparsed = GET"
    and k13: "mcp_session_id post_session_1_unparsed = Some ''session-1''"
    and k14: "body_error post_session_1_unparsed \<noteq> None"
    by (simp_all add: post_session_1_unparsed_def)
  note parsed = stale_token_rejected [where sdk' = sdk_closes,
      OF h1 h2 h3 h4 h5 h5b h6 h7 r h9 h10 h11 h12 h13]
  note unparsed = stale_token_rejected [where sdk' = sdk_closes,
      OF h1 h2 h3 h4 h5 h5b h6 h7 r h9 h10 k11 k12 k13]
  from parsed h14 h15 have 1:
    "\<not> has (streamableTransports (run cfg_allowlist initial_server lifecycle)) ''session-1''"
    "status_code (fst (handle_http cfg_allowlist post_session_1 sdk_closes
                        (run cfg_allowlist initial_server lifecycle))) = Some 400"
    "resp_body (fst (handle_http cfg_allowlist post_session_1 sdk_closes
                        (run cfg_allowlist initial_server lifecycle)))
       = JsonRpcError (- 32000)
           ''Bad request: no valid session. Send an initialize request first.''"
    "handle_http cfg_allowlist (post_session_1\<lparr> mcp_session_id := Some ''never-issued'' \<rparr>)
         sdk_closes (run cfg_allowlist initial_server lifecycle)
     = handle_http cfg_allowlist post_session_1 sdk_closes
         (run cfg_allowlist initial_server lifecycle)"
    by simp_all
  from unparsed k14 have 2:
    "resp_body (fst (handle_http cfg_allowlist post_session_1_unparsed sdk_closes
                        (run cfg_allowlist initial_server lifecycle))) = ErrorPage"
    "handle_http cfg_allowlist (post_session_1_unparsed\<lparr> mcp_session_id := Some ''never-issued'' \<rparr>)
         sdk_closes (run cfg_allowlist initial_server lifecycle)
     = handle_http cfg_allowlist post_session_1_unparsed sdk_closes
         (run cfg_allowlist initial_server lifecycle)"
    by simp_all
  from 1 2 show ?thesis by simp
qed

section \<open>Shutdown\<close>

lemma delete_append: "AList.delete k (xs @ ys) = AList.delete k xs @ AList.delete k ys"
  by (induction xs) simp_all

lemma find_first:
  "P x \<Longrightarrow> \<exists>e. find P (pre @ x # ys) = Some e \<and> e \<in> set (pre @ [x])"
  by (induction pre) auto

lemma onclose_shape:
  assumes "distinct (map fst (pre @ (sid, t) # todo))"
  shows "\<exists>pre'. onclose t (pre @ (sid, t) # todo) = pre' @ todo
               \<and> distinct (map fst (pre' @ todo))"
proof -
  from find_first [of "\<lambda>e. snd e = t" "(sid, t)" pre todo]
  obtain e where e: "find (\<lambda>e. snd e = t) (pre @ (sid, t) # todo) = Some e"
    and mem: "e \<in> set (pre @ [(sid, t)])" by auto
  obtain sid0 t0 where e0: "e = (sid0, t0)" by (cases e)
  from mem e0 have "sid0 \<in> fst ` set (pre @ [(sid, t)])" by force
  with assms have notin: "sid0 \<notin> fst ` set todo" by auto
  show ?thesis
  proof (cases "sid0 = []")
    case True
    with e e0 have "onclose t (pre @ (sid, t) # todo) = (pre @ [(sid, t)]) @ todo"
      by (simp add: onclose_def)
    with assms show ?thesis by (metis append.assoc append_Cons append_Nil)
  next
    case False
    with e e0 notin have "onclose t (pre @ (sid, t) # todo)
        = AList.delete sid0 (pre @ [(sid, t)]) @ todo"
      by (simp add: onclose_def delete_append)
    moreover have "distinct (map fst (AList.delete sid0 (pre @ [(sid, t)]) @ todo))"
    proof -
      have "AList.delete sid0 (pre @ (sid, t) # todo)
              = AList.delete sid0 (pre @ [(sid, t)]) @ todo"
        using notin by (simp add: delete_append)
      with distinct_delete [OF assms, of sid0] show ?thesis by simp
    qed
    ultimately show ?thesis by blast
  qed
qed

lemma filter_has_id:
  "filter (\<lambda>e. has (pre @ todo) (fst e)) todo = todo"
  by (simp add: has_keys filter_id_conv image_iff) force

lemma close_all_visits:
  assumes "distinct (map fst (pre @ todo))"
  shows "map (\<lambda>e. (fst e, fst (snd e))) (fst (close_all sdk todo (pre @ todo))) = todo
       \<and> map (\<lambda>e. snd (snd e)) (fst (close_all sdk todo (pre @ todo)))
           = map (\<lambda>e. settles (sdk (snd e))) todo"
  using assms
proof (induction todo arbitrary: pre)
  case Nil
  then show ?case by simp
next
  case (Cons x todo)
  obtain sid t where x: "x = (sid, t)" by (cases x)
  define store' where
    "store' = (if fires_onclose (sdk t) then onclose t (pre @ (sid, t) # todo)
               else pre @ (sid, t) # todo)"
  have "\<exists>pre'. store' = pre' @ todo \<and> distinct (map fst (pre' @ todo))"
  proof (cases "fires_onclose (sdk t)")
    case True
    with onclose_shape [of pre sid t todo] Cons.prems x show ?thesis
      by (simp add: store'_def)
  next
    case False
    have "pre @ (sid, t) # todo = (pre @ [(sid, t)]) @ todo" by simp
    with False Cons.prems x show ?thesis
      unfolding store'_def by (metis (full_types))
  qed
  then obtain pre' where s': "store' = pre' @ todo" and d: "distinct (map fst (pre' @ todo))"
    by blast
  have unfold: "close_all sdk (x # todo) (pre @ x # todo)
      = ((sid, t, settles (sdk t)) # fst (close_all sdk todo (pre' @ todo)),
         snd (close_all sdk todo (pre' @ todo)))"
    using x s' by (simp add: store'_def [symmetric] Let_def filter_has_id)
  from Cons.IH [OF d] unfold x show ?case by simp
qed

lemma onclose_distinct: "distinct (map fst store) \<Longrightarrow> distinct (map fst (onclose t store))"
  by (simp add: onclose_def distinct_delete split: option.splits)

lemma run_callbacks_distinct:
  "distinct (map fst store) \<Longrightarrow> distinct (map fst (run_callbacks t cs store))"
proof (induction cs arbitrary: store)
  case Nil
  then show ?case by simp
next
  case (Cons c cs)
  then show ?case
    by (cases c) (simp_all add: onsessioninitialized_def distinct_update onclose_distinct)
qed

lemma route_distinct:
  assumes "distinct (map fst (streamableTransports s))"
  shows "distinct (map fst (streamableTransports (snd (route req sdk s))))"
proof -
  have post: "distinct (map fst (streamableTransports (snd (post_mcp req sdk s))))"
    using assms
    by (simp add: post_mcp_def handleRequest_def run_callbacks_distinct split: option.splits)
  have get: "distinct (map fst (streamableTransports (snd (get_mcp req sdk s))))"
    using assms
    by (simp add: get_mcp_def handleRequest_def run_callbacks_distinct split: option.splits)
  have del: "distinct (map fst (streamableTransports (snd (delete_mcp req sdk s))))"
    using assms
    by (simp add: delete_mcp_def handleRequest_def run_callbacks_distinct distinct_delete
        split: option.splits)
  have sse: "distinct (map fst (streamableTransports (snd (get_sse sdk s))))"
    using assms by (simp add: get_sse_def)
  have msg: "distinct (map fst (streamableTransports (snd (post_messages req s))))"
    using assms by (simp add: post_messages_def split: option.splits)
  have hl: "distinct (map fst (streamableTransports (snd (health s))))"
    using assms by (simp add: health_def)
  show ?thesis
    unfolding route_def using post get del sse msg hl assms by simp
qed

lemma express_json_distinct:
  assumes "distinct (map fst (streamableTransports s))"
  shows "distinct (map fst (streamableTransports (snd (express_json req sdk s))))"
  using route_distinct [OF assms, of req sdk] assms
  by (simp add: express_json_def split: option.splits)

lemma step_distinct:
  assumes "distinct (map fst (streamableTransports s))"
  shows "distinct (map fst (streamableTransports (step cfg s ev)))"
proof (cases ev)
  case (Http req sdk)
  with express_json_distinct [OF assms, of req sdk] assms show ?thesis
    by (simp add: handle_http_state)
next
  case (SseClose c)
  with assms show ?thesis by simp
next
  case (StreamClose t)
  with assms show ?thesis by (simp add: onclose_distinct)
qed

lemma run_distinct:
  "distinct (map fst (streamableTransports s))
   \<Longrightarrow> distinct (map fst (streamableTransports (run cfg s evs)))"
proof (induction evs arbitrary: s)
  case Nil
  then show ?case by (simp add: run_def)
next
  case (Cons ev evs)
  from Cons.IH [OF step_distinct [OF Cons.prems, of cfg ev]] show ?case
    by (simp add: run_def)
qed

lemma reachable_distinct:
  "distinct (map fst (streamableTransports (run cfg initial_server history)))"
  by (rule run_distinct) (simp add: initial_server_def)

lemma shutdown_closed:
  "closed (shutdown cfg sdk during s)
     = fst (close_all sdk (streamableTransports s) (streamableTransports s))"
  by (simp add: shutdown_def split: prod.splits)

lemma shutdown_after:
  "\<not> list_ex (\<lambda>e. snd (snd e) = Pending) (closed (shutdown cfg sdk during s))
   \<Longrightarrow> \<exists>s'. after (shutdown cfg sdk during s) = Some s' \<and> streamableTransports s' = []
              \<and> sseTransports s' = []"
  by (auto simp add: shutdown_def split: prod.splits)

lemma shutdown_pending:
  "list_ex (\<lambda>e. snd (snd e) = Pending) (closed (shutdown cfg sdk during s))
   \<Longrightarrow> after (shutdown cfg sdk during s) = None"
  by (auto simp add: shutdown_def split: prod.splits)

text \<open>
  C6. In any state the server can reach, with any number of open streamable
  sessions, \<open>shutdown\<close> calls \<open>close()\<close> on the transport of every entry of the
  store, in order, whatever each \<open>close()\<close> does (invoke \<open>onclose\<close> or not, fulfil,
  reject or never settle). It waits for every one of them to settle: if some
  \<open>close()\<close> never settles, \<open>shutdown\<close> never goes past the wait and reaches no
  state after it. Once every one of them has settled, by success or by failure,
  both the streamable store and the legacy store are empty, whatever was served
  in the meantime.
\<close>

theorem shutdown_closes_every_session:
  assumes "s = run cfg initial_server history"
    and "r = shutdown cfg sdk during s"
  shows "map (\<lambda>e. (fst e, fst (snd e))) (closed r) = streamableTransports s
       \<and> map (\<lambda>e. snd (snd e)) (closed r)
           = map (\<lambda>e. settles (sdk (snd e))) (streamableTransports s)
       \<and> (list_all (\<lambda>e. settles (sdk (snd e)) \<noteq> Pending) (streamableTransports s)
            \<longrightarrow> (\<exists>s'. after r = Some s' \<and> streamableTransports s' = []
                       \<and> sseTransports s' = []))
       \<and> (list_ex (\<lambda>e. settles (sdk (snd e)) = Pending) (streamableTransports s)
            \<longrightarrow> after r = None)"
proof -
  have d: "distinct (map fst ([] @ streamableTransports s))"
    using assms(1) by (simp add: reachable_distinct)
  have c: "closed r = fst (close_all sdk ([] @ streamableTransports s) ([] @ streamableTransports s))"
    using assms(2) by (simp add: shutdown_closed)
  from close_all_visits [OF d, of sdk] c
  have v: "map (\<lambda>e. (fst e, fst (snd e))) (closed r) = streamableTransports s"
    and o: "map (\<lambda>e. snd (snd e)) (closed r)
           = map (\<lambda>e. settles (sdk (snd e))) (streamableTransports s)"
    by simp_all
  have a: "\<exists>s'. after r = Some s' \<and> streamableTransports s' = [] \<and> sseTransports s' = []"
    if "list_all (\<lambda>e. settles (sdk (snd e)) \<noteq> Pending) (streamableTransports s)"
  proof -
    from that have "Pending \<notin> set (map (\<lambda>e. settles (sdk (snd e))) (streamableTransports s))"
      by (auto simp add: list_all_iff)
    with o have "Pending \<notin> set (map (\<lambda>e. snd (snd e)) (closed r))"
      by simp
    then have "\<not> list_ex (\<lambda>e. snd (snd e) = Pending) (closed r)"
      by (force simp add: list_ex_iff)
    with assms(2) show ?thesis
      by (simp add: shutdown_after)
  qed
  have p: "after r = None"
    if "list_ex (\<lambda>e. settles (sdk (snd e)) = Pending) (streamableTransports s)"
  proof -
    from that have "Pending \<in> set (map (\<lambda>e. settles (sdk (snd e))) (streamableTransports s))"
      by (force simp add: list_ex_iff)
    with o have "Pending \<in> set (map (\<lambda>e. snd (snd e)) (closed r))"
      by simp
    then have "list_ex (\<lambda>e. snd (snd e) = Pending) (closed r)"
      by (force simp add: list_ex_iff)
    with assms(2) show ?thesis
      by (simp add: shutdown_pending)
  qed
  from v o a p show ?thesis by simp
qed

theorem shutdown_closes_every_session_witness:
  "closed (shutdown cfg_allowlist close_first_fails [] (run cfg_allowlist initial_server two_sessions))
     = [(''session-1'', 0, Rejected ''socket hang up''), (''session-2'', 1, Fulfilled)]
   \<and> (\<exists>s'. after (shutdown cfg_allowlist close_first_fails []
                     (run cfg_allowlist initial_server two_sessions)) = Some s'
           \<and> streamableTransports s' = [] \<and> sseTransports s' = [])
   \<and> closed (shutdown cfg_allowlist close_second_hangs [] (run cfg_allowlist initial_server two_sessions))
     = [(''session-1'', 0, Fulfilled), (''session-2'', 1, Pending)]
   \<and> after (shutdown cfg_allowlist close_second_hangs []
              (run cfg_allowlist initial_server two_sessions)) = None"
proof -
  have st: "run cfg_allowlist initial_server two_sessions
    = \<lparr> streamableTransports = [(''session-1'', 0), (''session-2'', 1)], sseTransports = [],
        next_transport = 2 \<rparr>"
    by (simp add: run_def two_sessions_def handle_http_def express_json_def route_def
      post_mcp_def Let_def init_from_evil_def handleRequest_def sdk_issues_session_1_def
      sdk_issues_session_2_def initial_server_def onsessioninitialized_def has_def)
  have np: "list_all (\<lambda>e. settles (close_first_fails (snd e)) \<noteq> Pending)
              (streamableTransports (run cfg_allowlist initial_server two_sessions))"
    by (simp add: st close_first_fails_def)
  have pe: "list_ex (\<lambda>e. settles (close_second_hangs (snd e)) = Pending)
              (streamableTransports (run cfg_allowlist initial_server two_sessions))"
    by (simp add: st close_second_hangs_def)
  from shutdown_closes_every_session [where cfg = cfg_allowlist and history = two_sessions
      and sdk = close_first_fails and during = "[]", OF refl refl] np
  have m: "map (\<lambda>e. (fst e, fst (snd e)))
        (closed (shutdown cfg_allowlist close_first_fails []
           (run cfg_allowlist initial_server two_sessions)))
      = streamableTransports (run cfg_allowlist initial_server two_sessions)"
    and o: "map (\<lambda>e. snd (snd e))
        (closed (shutdown cfg_allowlist close_first_fails []
           (run cfg_allowlist initial_server two_sessions)))
      = map (\<lambda>e. settles (close_first_fails (snd e)))
          (streamableTransports (run cfg_allowlist initial_server two_sessions))"
    and a: "\<exists>s'. after (shutdown cfg_allowlist close_first_fails []
           (run cfg_allowlist initial_server two_sessions)) = Some s'
         \<and> streamableTransports s' = [] \<and> sseTransports s' = []"
    by blast+
  from shutdown_closes_every_session [where cfg = cfg_allowlist and history = two_sessions
      and sdk = close_second_hangs and during = "[]", OF refl refl] pe
  have m2: "map (\<lambda>e. (fst e, fst (snd e)))
        (closed (shutdown cfg_allowlist close_second_hangs []
           (run cfg_allowlist initial_server two_sessions)))
      = streamableTransports (run cfg_allowlist initial_server two_sessions)"
    and o2: "map (\<lambda>e. snd (snd e))
        (closed (shutdown cfg_allowlist close_second_hangs []
           (run cfg_allowlist initial_server two_sessions)))
      = map (\<lambda>e. settles (close_second_hangs (snd e)))
          (streamableTransports (run cfg_allowlist initial_server two_sessions))"
    and p2: "after (shutdown cfg_allowlist close_second_hangs []
           (run cfg_allowlist initial_server two_sessions)) = None"
    by blast+
  from m o have c1: "closed (shutdown cfg_allowlist close_first_fails []
       (run cfg_allowlist initial_server two_sessions))
     = [(''session-1'', 0, Rejected ''socket hang up''), (''session-2'', 1, Fulfilled)]"
    unfolding st by (auto simp add: map_eq_Cons_conv close_first_fails_def)
  from m2 o2 have c2: "closed (shutdown cfg_allowlist close_second_hangs []
       (run cfg_allowlist initial_server two_sessions))
     = [(''session-1'', 0, Fulfilled), (''session-2'', 1, Pending)]"
    unfolding st by (auto simp add: map_eq_Cons_conv close_second_hangs_def)
  from c1 a c2 p2 show ?thesis by simp
qed

end
